theory Spec2Isabelle
  imports Complex_Main "HOL-Library.Sublist"
begin

section \<open>Python values and the primitive operations the script applies to them\<close>

text \<open>
  Everything the script holds in its session state comes out of \<^verbatim>\<open>json.loads\<close> or is a
  literal dictionary, so a value is a JSON value.  A dictionary is an association list
  read with \<^const>\<open>map_of\<close>; \<^verbatim>\<open>None\<close> is \<open>JNull\<close>.  Strings are byte strings (UTF-8);
  the literals \<^verbatim>\<open>NaN\<close> and \<^verbatim>\<open>Infinity\<close> that \<^verbatim>\<open>json.loads\<close> accepts have no
  counterpart in \<open>JFloat\<close>.
\<close>

datatype json =
    JNull
  | JBool bool
  | JInt int
  | JFloat rat
  | JStr string
  | JList "json list"
  | JObj "(string \<times> json) list"

text \<open>
  The exceptions a run of the script can raise.  \<open>Raised m\<close> is an exception raised inside
  an external library (the model backend, \<^verbatim>\<open>json.loads\<close>, the image decoder) whose
  \<^verbatim>\<open>str(e)\<close> is \<open>m\<close>.  All of them are subclasses of \<^verbatim>\<open>Exception\<close>.
\<close>

datatype exn =
    KeyError string
  | TypeError
  | IndexError
  | AttributeError
  | StreamlitAPIException
  | Raised string

definition bind :: "exn + 'a \<Rightarrow> ('a \<Rightarrow> exn + 'b) \<Rightarrow> exn + 'b" where
  "bind r f = (case r of Inl e \<Rightarrow> Inl e | Inr x \<Rightarrow> f x)"

fun mapM :: "('a \<Rightarrow> exn + 'b) \<Rightarrow> 'a list \<Rightarrow> exn + 'b list" where
  "mapM f [] = Inr []"
| "mapM f (x # xs) = bind (f x) (\<lambda>y. bind (mapM f xs) (\<lambda>ys. Inr (y # ys)))"

text \<open>\<^verbatim>\<open>v[k]\<close> with a string key: only a dictionary can be read this way.\<close>

definition getitem :: "json \<Rightarrow> string \<Rightarrow> exn + json" where
  "getitem v k =
     (case v of
        JObj d \<Rightarrow> (case map_of d k of None \<Rightarrow> Inl (KeyError k) | Some x \<Rightarrow> Inr x)
      | _ \<Rightarrow> Inl TypeError)"

text \<open>\<^verbatim>\<open>v.get(k, default)\<close>: a method of dictionaries only.\<close>

definition get :: "json \<Rightarrow> string \<Rightarrow> json \<Rightarrow> exn + json" where
  "get v k dflt =
     (case v of
        JObj d \<Rightarrow> (case map_of d k of None \<Rightarrow> Inr dflt | Some x \<Rightarrow> Inr x)
      | _ \<Rightarrow> Inl AttributeError)"

text \<open>\<^verbatim>\<open>k in v\<close> for a string \<open>k\<close>: substring, element or key test, by the type of \<open>v\<close>.\<close>

definition contains :: "string \<Rightarrow> json \<Rightarrow> exn + bool" where
  "contains k v =
     (case v of
        JStr s \<Rightarrow> Inr (sublist k s)
      | JList xs \<Rightarrow> Inr (JStr k \<in> set xs)
      | JObj d \<Rightarrow> Inr (map_of d k \<noteq> None)
      | _ \<Rightarrow> Inl TypeError)"

text \<open>Truth value of a Python value, as \<^verbatim>\<open>if v:\<close> and \<^verbatim>\<open>not v\<close> take it.\<close>

definition truthy :: "json \<Rightarrow> bool" where
  "truthy v =
     (case v of
        JNull \<Rightarrow> False
      | JBool b \<Rightarrow> b
      | JInt n \<Rightarrow> n \<noteq> 0
      | JFloat q \<Rightarrow> q \<noteq> 0
      | JStr s \<Rightarrow> s \<noteq> []
      | JList xs \<Rightarrow> xs \<noteq> []
      | JObj d \<Rightarrow> d \<noteq> [])"

text \<open>
  Iterating a value: the elements of a list, the keys of a dictionary, the characters of
  a string; anything else is not iterable.
\<close>

definition iterate :: "json \<Rightarrow> exn + json list" where
  "iterate v =
     (case v of
        JList xs \<Rightarrow> Inr xs
      | JObj d \<Rightarrow> Inr (map (\<lambda>kv. JStr (fst kv)) d)
      | JStr s \<Rightarrow> Inr (map (\<lambda>c. JStr [c]) s)
      | _ \<Rightarrow> Inl TypeError)"

definition len :: "json \<Rightarrow> exn + nat" where
  "len v = bind (iterate v) (\<lambda>xs. Inr (length xs))"

definition ascii_lower :: "char \<Rightarrow> char" where
  "ascii_lower c =
     (let n = (of_char c :: nat) in if 65 \<le> n \<and> n \<le> 90 then char_of (n + 32) else c)"

text \<open>
  \<^verbatim>\<open>v.lower()\<close>, a method of strings only.  Lower-casing acts on the ASCII letters; the
  tests made on its result look for ASCII words.
\<close>

definition lower :: "json \<Rightarrow> exn + string" where
  "lower v = (case v of JStr s \<Rightarrow> Inr (map ascii_lower s) | _ \<Rightarrow> Inl AttributeError)"

fun string_of_nat :: "nat \<Rightarrow> string" where
  "string_of_nat n =
     (if n < 10 then [char_of (48 + n)]
      else string_of_nat (n div 10) @ [char_of (48 + n mod 10)])"

definition str_int :: "int \<Rightarrow> string" where
  "str_int i = (if i < 0 then CHR ''-'' # string_of_nat (nat (- i)) else string_of_nat (nat i))"

text \<open>
  \<^verbatim>\<open>str(v)\<close>, which is what an f-string applies to an interpolated value.  The text of a
  float, a list or a dictionary is Python's \<^verbatim>\<open>repr\<close>, taken as the parameter \<open>repr\<close>.
\<close>

definition py_str :: "(json \<Rightarrow> string) \<Rightarrow> json \<Rightarrow> string" where
  "py_str repr v =
     (case v of
        JStr s \<Rightarrow> s
      | JInt n \<Rightarrow> str_int n
      | JBool b \<Rightarrow> (if b then ''True'' else ''False'')
      | JNull \<Rightarrow> ''None''
      | _ \<Rightarrow> repr v)"

fun join :: "string \<Rightarrow> string list \<Rightarrow> string" where
  "join sep [] = []"
| "join sep [x] = x"
| "join sep (x # y # ys) = x @ sep @ join sep (y # ys)"

section \<open>The external collaborators\<close>

datatype schema = Council | SimulationOutput

datatype 'img part = Text string | Image 'img

text \<open>
  What a run of the script gets from outside.  \<open>generate_content\<close> is the backend call
  \<^verbatim>\<open>model.generate_content(inputs)\<close> followed by \<^verbatim>\<open>response.text\<close>, for a model
  configured with a response schema; \<open>json_loads\<close> is \<^verbatim>\<open>json.loads\<close>.  Either returns
  \<open>Inl m\<close> when it raises an exception whose text is \<open>m\<close>.  \<open>strftime\<close> is the value of
  \<^verbatim>\<open>time.strftime('%Y-%m-%d %H:%M:%S')\<close> and \<open>py_repr\<close> is Python's \<^verbatim>\<open>repr\<close>.
\<close>

record 'img env =
  generate_content :: "schema \<Rightarrow> 'img part list \<Rightarrow> string + string"
  json_loads :: "string \<Rightarrow> string + json"
  strftime :: string
  py_repr :: "json \<Rightarrow> string"

definition raised :: "string + 'a \<Rightarrow> exn + 'a" where
  "raised r = (case r of Inl m \<Rightarrow> Inl (Raised m) | Inr x \<Rightarrow> Inr x)"

text \<open>Ask the backend, then parse its text; either step may raise.\<close>

definition call_backend :: "'img env \<Rightarrow> schema \<Rightarrow> 'img part list \<Rightarrow> string + json" where
  "call_backend env sch inputs =
     (case generate_content env sch inputs of
        Inl m \<Rightarrow> Inl m
      | Inr text \<Rightarrow> json_loads env text)"

text \<open>
  A \<^verbatim>\<open>Digraph\<close> as the script builds it: the calls of \<^verbatim>\<open>dot.attr\<close>, \<^verbatim>\<open>dot.node\<close> and
  \<^verbatim>\<open>dot.edge\<close> in order, each with its arguments (name, label and attributes of a node;
  tail, head and label of an edge).  The graph these statements make is read off them
  separately.
\<close>

datatype dot_stmt =
    Attr string "(string \<times> string) list"
  | Node string string "(string \<times> string) list"
  | Edge string string "string option"

text \<open>
  What a run does that can be seen from outside: the requests it sends to the backend,
  the error and warning boxes, the chart and the download button it shows.  The rest of
  the page (markup, captions, metrics) is not kept.
\<close>

datatype 'img effect =
    Request schema "'img part list"
  | StError string
  | StWarning string
  | GraphvizChart "dot_stmt list"
  | DownloadButton string

section \<open>The declared response schemas\<close>

definition str_field :: "(string \<times> json) list \<Rightarrow> string \<Rightarrow> bool" where
  "str_field d k = (case map_of d k of Some (JStr s) \<Rightarrow> True | _ \<Rightarrow> False)"

definition int_field :: "(string \<times> json) list \<Rightarrow> string \<Rightarrow> bool" where
  "int_field d k = (case map_of d k of Some (JInt n) \<Rightarrow> True | _ \<Rightarrow> False)"

text \<open>\<^verbatim>\<open>class AgentProfile(BaseModel)\<close>: four string fields.\<close>

definition AgentProfile :: "json \<Rightarrow> bool" where
  "AgentProfile v =
     (case v of
        JObj d \<Rightarrow> str_field d ''name'' \<and> str_field d ''role'' \<and> str_field d ''stance''
                  \<and> str_field d ''avatar''
      | _ \<Rightarrow> False)"

text \<open>\<^verbatim>\<open>class Council(BaseModel)\<close>: a list of agent profiles; the class bounds no length.\<close>

definition Council_shape :: "json \<Rightarrow> bool" where
  "Council_shape v =
     (case v of
        JObj d \<Rightarrow> (case map_of d ''agents'' of
                     Some (JList xs) \<Rightarrow> list_all AgentProfile xs
                   | _ \<Rightarrow> False)
      | _ \<Rightarrow> False)"

text \<open>\<^verbatim>\<open>class ScenarioNode(BaseModel)\<close>: ten fields, strings and integers.\<close>

definition ScenarioNode :: "json \<Rightarrow> bool" where
  "ScenarioNode v =
     (case v of
        JObj d \<Rightarrow> str_field d ''id'' \<and> str_field d ''title'' \<and> str_field d ''description''
                  \<and> int_field d ''probability'' \<and> str_field d ''time_horizon''
                  \<and> str_field d ''risk_level'' \<and> int_field d ''impact_score''
                  \<and> int_field d ''data_confidence'' \<and> int_field d ''assumption_stability''
                  \<and> str_field d ''reasoning_trace''
      | _ \<Rightarrow> False)"

text \<open>
  \<^verbatim>\<open>class SimulationOutput(BaseModel)\<close>: a list of scenario nodes of any length, a
  synthesis string, and an optional alert (a string, \<^verbatim>\<open>None\<close>, or left out).
\<close>

definition SimulationOutput_shape :: "json \<Rightarrow> bool" where
  "SimulationOutput_shape v =
     (case v of
        JObj d \<Rightarrow>
          (case map_of d ''scenarios'' of
             Some (JList xs) \<Rightarrow> list_all ScenarioNode xs
           | _ \<Rightarrow> False)
          \<and> str_field d ''synthesis''
          \<and> (case map_of d ''black_swan_alert'' of
                None \<Rightarrow> True | Some JNull \<Rightarrow> True | Some (JStr s) \<Rightarrow> True | _ \<Rightarrow> False)
      | _ \<Rightarrow> False)"

section \<open>The model gateway\<close>

subsection \<open>\<^verbatim>\<open>recruit_agents\<close>\<close>

definition recruit_prompt :: "(json \<Rightarrow> string) \<Rightarrow> json \<Rightarrow> string" where
  "recruit_prompt repr context =
     ''MISSION: Recruit 3 distinct strategic experts to analyze: '' @ py_str repr context
       @ ''. RULES: No honorifics. Diverse perspectives.''"

definition recruit_inputs :: "(json \<Rightarrow> string) \<Rightarrow> json \<Rightarrow> 'img option \<Rightarrow> 'img part list" where
  "recruit_inputs repr context image_part =
     [Text (recruit_prompt repr context)]
       @ (case image_part of
            None \<Rightarrow> []
          | Some img \<Rightarrow> [Image img, Text ''Analyze visual data.''])"

text \<open>
  No \<^verbatim>\<open>try\<close> and no validation: whatever the backend or the parser raises leaves the
  function, and whatever the parser returns is the result.
\<close>

definition recruit_agents ::
  "'img env \<Rightarrow> json \<Rightarrow> 'img option \<Rightarrow> 'img effect list \<times> (exn + json)" where
  "recruit_agents env context image_part =
     (let inputs = recruit_inputs (py_repr env) context image_part
      in ([Request Council inputs], raised (call_backend env Council inputs)))"

subsection \<open>\<^verbatim>\<open>run_simulation\<close>\<close>

definition agent_line :: "(json \<Rightarrow> string) \<Rightarrow> json \<Rightarrow> exn + string" where
  "agent_line repr a =
     bind (getitem a ''name'') (\<lambda>n.
     bind (getitem a ''role'') (\<lambda>r.
     bind (getitem a ''stance'') (\<lambda>s.
       Inr (''- '' @ py_str repr n @ '' ('' @ py_str repr r @ ''): '' @ py_str repr s))))"

definition agents_desc :: "(json \<Rightarrow> string) \<Rightarrow> json \<Rightarrow> exn + string" where
  "agents_desc repr agents =
     bind (getitem agents ''agents'') (\<lambda>l.
     bind (iterate l) (\<lambda>as.
     bind (mapM (agent_line repr) as) (\<lambda>lines.
       Inr (join ''\<newline>'' lines))))"

definition warning_sign :: string where
  "warning_sign = map char_of [0xE2, 0x9A, 0xA0, 0xEF, 0xB8, 0x8F :: nat]"

definition chaos_prompt :: "bool \<Rightarrow> string" where
  "chaos_prompt inject_chaos =
     (if inject_chaos
      then warning_sign @ '' INJECT A BLACK SWAN EVENT: Introduce a low-probability, high-impact disruption into the scenarios.''
      else [])"

definition simulation_prompt :: "(json \<Rightarrow> string) \<Rightarrow> json \<Rightarrow> string \<Rightarrow> bool \<Rightarrow> string" where
  "simulation_prompt repr context desc inject_chaos =
     ''\<newline>    You are TIMEFOLD, an Advanced Strategic Foresight Engine.''
     @ ''\<newline>    ACTIVE COUNCIL: '' @ desc
     @ ''\<newline>    TASK: Simulate a debate, generate 3 divergent future scenarios. Include reasoning traces and confidence metrics.''
     @ ''\<newline>    '' @ chaos_prompt inject_chaos
     @ ''\<newline>    CURRENT STATE: '' @ py_str repr context
     @ ''\<newline>    ''"

definition simulation_inputs ::
  "(json \<Rightarrow> string) \<Rightarrow> json \<Rightarrow> string \<Rightarrow> 'img option \<Rightarrow> bool \<Rightarrow> 'img part list" where
  "simulation_inputs repr context desc image_part inject_chaos =
     [Text (simulation_prompt repr context desc inject_chaos)]
       @ (case image_part of
            None \<Rightarrow> []
          | Some img \<Rightarrow> [Image img, Text ''Incorporate visual insights.''])"

text \<open>
  The council description is built before the \<^verbatim>\<open>try\<close>, so a council it cannot read
  raises out of the function.  Inside the \<^verbatim>\<open>try\<close> are the backend call and the parse:
  an exception there is shown with \<^verbatim>\<open>st.error\<close> and the result is \<^verbatim>\<open>None\<close>.
\<close>

definition run_simulation ::
  "'img env \<Rightarrow> json \<Rightarrow> json \<Rightarrow> 'img option \<Rightarrow> bool \<Rightarrow> 'img effect list \<times> (exn + json)" where
  "run_simulation env context agents image_part inject_chaos =
     (case agents_desc (py_repr env) agents of
        Inl e \<Rightarrow> ([], Inl e)
      | Inr desc \<Rightarrow>
          (let inputs = simulation_inputs (py_repr env) context desc image_part inject_chaos
           in case call_backend env SimulationOutput inputs of
                Inl m \<Rightarrow>
                  ([Request SimulationOutput inputs, StError (''Simulation Error: '' @ m)],
                   Inr JNull)
              | Inr v \<Rightarrow> ([Request SimulationOutput inputs], Inr v)))"

section \<open>The report exporter: \<^verbatim>\<open>generate_markdown_report\<close>\<close>

text \<open>What one turn of the loop adds to the report, for the entry at index \<open>i\<close>.\<close>

definition report_step :: "(json \<Rightarrow> string) \<Rightarrow> nat \<Rightarrow> json \<Rightarrow> exn + string" where
  "report_step repr i step =
     bind (getitem step ''title'') (\<lambda>t.
     bind (getitem step ''description'') (\<lambda>d.
     bind (contains ''reasoning_trace'' step) (\<lambda>has_trace.
     bind (if has_trace
           then bind (getitem step ''reasoning_trace'') (\<lambda>rt.
                  Inr (''> **Reasoning:** '' @ py_str repr rt @ ''\<newline>\<newline>''))
           else Inr []) (\<lambda>trace.
     bind (contains ''risk_level'' step) (\<lambda>has_risk.
     bind (if has_risk
           then bind (getitem step ''risk_level'') (\<lambda>rl.
                bind (getitem step ''probability'') (\<lambda>p.
                  Inr (''**Metrics:** Risk: '' @ py_str repr rl @ '' | Prob: '' @ py_str repr p
                       @ ''%\<newline>'')))
           else Inr []) (\<lambda>metrics.
       Inr (''## Step '' @ str_int (int i + 1) @ '': '' @ py_str repr t @ ''\<newline>''
            @ ''_'' @ py_str repr d @ ''_\<newline>\<newline>''
            @ trace @ metrics @ ''---\<newline>'')))))))"

fun report_loop :: "(json \<Rightarrow> string) \<Rightarrow> nat \<Rightarrow> json list \<Rightarrow> string \<Rightarrow> exn + string" where
  "report_loop repr i [] report = Inr report"
| "report_loop repr i (step # rest) report =
     bind (report_step repr i step) (\<lambda>s. report_loop repr (Suc i) rest (report @ s))"

definition report_head :: "string \<Rightarrow> string" where
  "report_head now =
     ''# TIMEFOLD STRATEGIC REPORT\<newline>'' @ ''**Date:** '' @ now @ ''\<newline>\<newline>''"

definition generate_markdown_report :: "'img env \<Rightarrow> json list \<Rightarrow> exn + string" where
  "generate_markdown_report env history =
     report_loop (py_repr env) 0 history (report_head (strftime env))"

section \<open>The tree renderer: \<^verbatim>\<open>draw_advanced_tree\<close>\<close>

definition graph_header :: "dot_stmt list" where
  "graph_header =
     [Attr [] [(''bgcolor'', ''#0E1117''), (''rankdir'', ''LR'')],
      Attr ''node'' [(''fontname'', ''Helvetica''), (''fontcolor'', ''white'')],
      Attr ''edge'' [(''color'', ''#555555''), (''arrowsize'', ''0.7''), (''fontcolor'', ''#AAAAAA'')]]"

definition spine_attrs :: "(string \<times> string) list" where
  "spine_attrs =
     [(''shape'', ''box''), (''style'', ''filled''), (''fillcolor'', ''#21262D''),
      (''penwidth'', ''2.0''), (''color'', ''white'')]"

definition spine_node :: "string \<Rightarrow> string \<Rightarrow> dot_stmt" where
  "spine_node node_id label = Node node_id label spine_attrs"

definition H_id :: "int \<Rightarrow> string" where
  "H_id i = ''H_'' @ str_int i"

fun spine_loop ::
  "(json \<Rightarrow> string) \<Rightarrow> nat \<Rightarrow> json list \<Rightarrow> dot_stmt list \<Rightarrow> exn + dot_stmt list" where
  "spine_loop repr i [] dot = Inr dot"
| "spine_loop repr i (step # rest) dot =
     bind (getitem step ''title'') (\<lambda>t.
       spine_loop repr (Suc i) rest
         (dot @ [spine_node (H_id (int i)) (py_str repr t)]
              @ (if i > 0 then [Edge (H_id (int i - 1)) (H_id (int i)) None] else [])))"

definition risk_color :: "string \<Rightarrow> string" where
  "risk_color risk =
     (if sublist ''critical'' risk then ''#8B0000''
      else if sublist ''high'' risk then ''#B22222''
      else if sublist ''low'' risk then ''#006400''
      else ''#003366'')"

definition leaf_label :: "string \<Rightarrow> string \<Rightarrow> string \<Rightarrow> string" where
  \<open>leaf_label title time_horizon probability =
     ''<<TABLE BORDER="0" CELLBORDER="0" CELLSPACING="0"><TR><TD><B>'' @ title @ ''</B></TD></TR>''
     @ ''\<newline>            <TR><TD><FONT POINT-SIZE="10">'' @ time_horizon @ ''</FONT></TD></TR>''
     @ ''\<newline>            <TR><TD><FONT POINT-SIZE="10">Prob: '' @ probability
     @ ''%</FONT></TD></TR></TABLE>>''\<close>

definition leaf_node :: "string \<Rightarrow> string \<Rightarrow> string \<Rightarrow> dot_stmt" where
  "leaf_node opt_id label color =
     Node opt_id label [(''shape'', ''note''), (''style'', ''filled''), (''fillcolor'', color)]"

text \<open>The two statements one scenario adds: its node, then the edge from \<open>last_id\<close>.\<close>

definition leaf_stmts :: "(json \<Rightarrow> string) \<Rightarrow> string \<Rightarrow> json \<Rightarrow> exn + dot_stmt list" where
  "leaf_stmts repr last_id opt =
     bind (getitem opt ''id'') (\<lambda>oid.
     bind (get opt ''risk_level'' (JStr [])) (\<lambda>r.
     bind (lower r) (\<lambda>risk.
     bind (getitem opt ''title'') (\<lambda>t.
     bind (getitem opt ''time_horizon'') (\<lambda>th.
     bind (getitem opt ''probability'') (\<lambda>p.
     bind (getitem opt ''risk_level'') (\<lambda>rl.
       Inr [leaf_node (''OPT_'' @ py_str repr oid)
              (leaf_label (py_str repr t) (py_str repr th) (py_str repr p)) (risk_color risk),
            Edge last_id (''OPT_'' @ py_str repr oid) (Some (''Risk: '' @ py_str repr rl))])))))))"

fun leaf_loop ::
  "(json \<Rightarrow> string) \<Rightarrow> string \<Rightarrow> json list \<Rightarrow> dot_stmt list \<Rightarrow> exn + dot_stmt list" where
  "leaf_loop repr last_id [] dot = Inr dot"
| "leaf_loop repr last_id (opt # rest) dot =
     bind (leaf_stmts repr last_id opt) (\<lambda>ss. leaf_loop repr last_id rest (dot @ ss))"

definition draw_advanced_tree ::
  "(json \<Rightarrow> string) \<Rightarrow> json list \<Rightarrow> json \<Rightarrow> exn + dot_stmt list" where
  "draw_advanced_tree repr history options =
     bind (spine_loop repr 0 history graph_header) (\<lambda>dot.
       (let last_id = H_id (int (length history) - 1)
        in if truthy options
           then bind (get options ''scenarios'' (JList [])) (\<lambda>sc.
                bind (iterate sc) (\<lambda>opts.
                  leaf_loop repr last_id opts dot))
           else Inr dot))"

section \<open>The script: session state and one run per user action\<close>

text \<open>
  The session state holds four keys.  The script assigns \<^verbatim>\<open>stage\<close> one of three strings
  and compares it with the same three; they are the constructors of \<open>stage\<close>.  The other
  keys hold Python values: a list of dictionaries, and what the gateway returned or
  \<^verbatim>\<open>None\<close>.
\<close>

datatype stage = INPUT | RECRUITING | SIMULATING

record session =
  stage :: stage
  history :: "json list"
  agents :: json
  simulation :: json

text \<open>Lines 185 to 188: the values a key gets when the session state does not hold it.\<close>

definition fresh_session :: session where
  "fresh_session = \<lparr>stage = INPUT, history = [], agents = JNull, simulation = JNull\<rparr>"

datatype button =
    ResetSystem
  | CryptoCrash
  | Pandemic
  | AIBan
  | InitializeSystem
  | StartSimulation
  | InjectChaos
  | ExploreThisPath nat

text \<open>
  What the widgets deliver to one run: the configured API key (if any), the uploaded
  file as \<^verbatim>\<open>Image.open\<close> decodes it (\<open>Inl m\<close> when decoding raises), the reasoning
  toggle, the text area, and the button whose click started the run (if any);
  \<open>ExploreThisPath i\<close> is the button with key \<^verbatim>\<open>btn_i\<close>.
\<close>

record 'img widgets =
  api_key :: "string option"
  uploaded_file :: "(string + 'img) option"
  show_reasoning :: bool
  user_input :: string
  pressed :: "button option"

text \<open>
  How a run ends: at the end of the script, at \<^verbatim>\<open>st.rerun()\<close>, at \<^verbatim>\<open>st.stop()\<close>, or with an
  exception nothing catches.  The session state keeps what was assigned before.
\<close>

datatype ending = Completed | Rerun | Stopped | Crashed exn

type_synonym 'img stage_result = "session \<times> 'img effect list \<times> ending"

definition start_entry :: "string \<Rightarrow> json" where
  "start_entry description = JObj [(''title'', JStr ''START''), (''description'', JStr description)]"

definition enter_recruiting :: "session \<Rightarrow> string \<Rightarrow> 'img stage_result" where
  "enter_recruiting s description =
     (s\<lparr>history := history s @ [start_entry description], stage := RECRUITING\<rparr>, [], Rerun)"

subsection \<open>Stage \<^verbatim>\<open>INPUT\<close>\<close>

definition input_stage :: "'img widgets \<Rightarrow> 'img option \<Rightarrow> session \<Rightarrow> 'img stage_result" where
  "input_stage w image_part s =
     (case pressed w of
        Some CryptoCrash \<Rightarrow>
          enter_recruiting s ''Bitcoin crashes below $30k, triggering global regulatory crackdown.''
      | Some Pandemic \<Rightarrow>
          enter_recruiting s ''A new respiratory virus with high transmission rate is detected in major transit hubs.''
      | Some AIBan \<Rightarrow>
          enter_recruiting s ''UN passes a resolution banning autonomous AI development above a certain compute threshold.''
      | Some InitializeSystem \<Rightarrow>
          (if user_input w \<noteq> [] \<or> image_part \<noteq> None
           then enter_recruiting s
                  (if user_input w \<noteq> [] then user_input w
                   else ''Analyze the uploaded visual data.'')
           else (s, [StWarning ''Please enter text or upload an image.''], Completed))
      | _ \<Rightarrow> (s, [], Completed))"

text \<open>\<^verbatim>\<open>st.session_state.history[-1]['description']\<close>\<close>

definition last_context :: "session \<Rightarrow> exn + json" where
  "last_context s =
     (if history s = [] then Inl IndexError else getitem (last (history s)) ''description'')"

subsection \<open>Stage \<^verbatim>\<open>RECRUITING\<close>\<close>

text \<open>
  The cards of the council, one per agent, in the three columns \<^verbatim>\<open>st.columns(3)\<close> made:
  \<^verbatim>\<open>cols[i]\<close> exists for \<open>i < 3\<close> only, and a card reads the four fields of its agent.
\<close>

fun agent_cards :: "nat \<Rightarrow> json list \<Rightarrow> exn + unit" where
  "agent_cards i [] = Inr ()"
| "agent_cards i (agent # rest) =
     (if i \<ge> 3 then Inl IndexError
      else bind (getitem agent ''avatar'') (\<lambda>_.
           bind (getitem agent ''name'') (\<lambda>_.
           bind (getitem agent ''role'') (\<lambda>_.
           bind (getitem agent ''stance'') (\<lambda>_.
             agent_cards (Suc i) rest)))))"

definition show_council :: "json \<Rightarrow> exn + unit" where
  "show_council council =
     bind (getitem council ''agents'') (\<lambda>l.
     bind (iterate l) (\<lambda>as. agent_cards 0 as))"

definition recruiting_stage ::
  "'img env \<Rightarrow> 'img widgets \<Rightarrow> 'img option \<Rightarrow> session \<Rightarrow> 'img stage_result" where
  "recruiting_stage env w image_part s =
     (case last_context s of
        Inl e \<Rightarrow> (s, [], Crashed e)
      | Inr context \<Rightarrow>
          (case recruit_agents env context image_part of
             (fx, Inl e) \<Rightarrow> (s, fx, Crashed e)
           | (fx, Inr council) \<Rightarrow>
               (let s1 = s\<lparr>agents := council\<rparr>
                in case show_council council of
                     Inl e \<Rightarrow> (s1, fx, Crashed e)
                   | Inr _ \<Rightarrow>
                       (if pressed w = Some StartSimulation
                        then (s1\<lparr>stage := SIMULATING\<rparr>, fx, Rerun)
                        else (s1, fx, Completed)))))"

subsection \<open>Stage \<^verbatim>\<open>SIMULATING\<close>\<close>

definition alert_banner :: "(json \<Rightarrow> string) \<Rightarrow> json \<Rightarrow> bool \<Rightarrow> exn + 'img effect list" where
  "alert_banner repr sim inject_chaos =
     bind (get sim ''black_swan_alert'' JNull) (\<lambda>a.
       if truthy a \<or> inject_chaos
       then bind (get sim ''black_swan_alert'' (JStr ''Chaos Injection Active'')) (\<lambda>m.
              Inr [StError (warning_sign @ '' BLACK SWAN / CHAOS DETECTED: '' @ py_str repr m)])
       else Inr [])"

text \<open>\<^verbatim>\<open>st.columns(len(scenarios))\<close> refuses to make no column at all.\<close>

definition scenario_columns :: "json \<Rightarrow> exn + json list" where
  "scenario_columns sim =
     bind (get sim ''scenarios'' (JList [])) (\<lambda>scenarios.
     bind (len scenarios) (\<lambda>n.
       if n = 0 then Inl StreamlitAPIException else iterate scenarios))"

text \<open>What the card of one scenario reads, in the order the script reads it.\<close>

definition scenario_card :: "bool \<Rightarrow> json \<Rightarrow> exn + unit" where
  "scenario_card reasoning sc =
     bind (getitem sc ''risk_level'') (\<lambda>r.
     bind (contains ''Critical'' r) (\<lambda>critical.
     bind (if critical then Inr '':red''
           else bind (getitem sc ''risk_level'') (\<lambda>r'.
                bind (contains ''High'' r') (\<lambda>high.
                  Inr (if high then '':orange'' else '':green'')))) (\<lambda>risk_color.
     bind (getitem sc ''title'') (\<lambda>_.
     bind (getitem sc ''time_horizon'') (\<lambda>_.
     bind (getitem sc ''probability'') (\<lambda>_.
     bind (getitem sc ''impact_score'') (\<lambda>_.
     bind (getitem sc ''description'') (\<lambda>_.
       if reasoning
       then bind (getitem sc ''reasoning_trace'') (\<lambda>_.
            bind (getitem sc ''data_confidence'') (\<lambda>_.
            bind (getitem sc ''assumption_stability'') (\<lambda>_. Inr ())))
       else Inr ()))))))))"

text \<open>
  The loop over the scenarios: each card is drawn, then its button is asked; the first
  button found pressed ends the loop with its scenario (the handler reruns the script).
\<close>

fun scenario_cards :: "bool \<Rightarrow> button option \<Rightarrow> nat \<Rightarrow> json list \<Rightarrow> exn + json option" where
  "scenario_cards reasoning btn i [] = Inr None"
| "scenario_cards reasoning btn i (sc # rest) =
     bind (scenario_card reasoning sc) (\<lambda>_.
       if btn = Some (ExploreThisPath i) then Inr (Some sc)
       else scenario_cards reasoning btn (Suc i) rest)"

text \<open>Lines 266 to 320: the page drawn once a simulation value is in the session.\<close>

definition simulating_view ::
  "'img env \<Rightarrow> 'img widgets \<Rightarrow> bool \<Rightarrow> session \<Rightarrow> 'img effect list \<Rightarrow> 'img stage_result" where
  "simulating_view env w inject_chaos s fx =
     (case draw_advanced_tree (py_repr env) (history s) (simulation s) of
        Inl e \<Rightarrow> (s, fx, Crashed e)
      | Inr dot \<Rightarrow>
          (case bind (getitem (simulation s) ''synthesis'') (\<lambda>_.
                  alert_banner (py_repr env) (simulation s) inject_chaos) of
             Inl e \<Rightarrow> (s, fx @ [GraphvizChart dot], Crashed e)
           | Inr banner \<Rightarrow>
               (let fx1 = fx @ [GraphvizChart dot] @ banner
                in case bind (scenario_columns (simulation s))
                          (scenario_cards (show_reasoning w) (pressed w) 0) of
                     Inl e \<Rightarrow> (s, fx1, Crashed e)
                   | Inr (Some sc) \<Rightarrow>
                       (s\<lparr>history := history s @ [sc], simulation := JNull, agents := JNull,
                          stage := RECRUITING\<rparr>, fx1, Rerun)
                   | Inr None \<Rightarrow>
                       (case generate_markdown_report env (history s) of
                          Inl e \<Rightarrow> (s, fx1, Crashed e)
                        | Inr report_md \<Rightarrow> (s, fx1 @ [DownloadButton report_md], Completed)))))"

definition simulating_stage ::
  "'img env \<Rightarrow> 'img widgets \<Rightarrow> 'img option \<Rightarrow> session \<Rightarrow> 'img stage_result" where
  "simulating_stage env w image_part s =
     (case last_context s of
        Inl e \<Rightarrow> (s, [], Crashed e)
      | Inr context \<Rightarrow>
          (let inject_chaos = (pressed w = Some InjectChaos);
               s1 = (if inject_chaos then s\<lparr>simulation := JNull\<rparr> else s)
           in if \<not> truthy (simulation s1)
              then (case run_simulation env context (agents s1) image_part inject_chaos of
                      (fx, Inl e) \<Rightarrow> (s1, fx, Crashed e)
                    | (fx, Inr result) \<Rightarrow>
                        simulating_view env w inject_chaos (s1\<lparr>simulation := result\<rparr>) fx)
              else simulating_view env w inject_chaos s1 []))"

subsection \<open>One run of the script\<close>

record 'img outcome =
  final :: "session option"
  effects :: "'img effect list"
  ending :: ending

text \<open>
  The session state a run starts from is \<open>None\<close> when it holds no key (a new session, or
  after \<^verbatim>\<open>st.session_state.clear()\<close>).
\<close>

definition current :: "session option \<Rightarrow> session" where
  "current state = (case state of None \<Rightarrow> fresh_session | Some s \<Rightarrow> s)"

text \<open>The sidebar: \<^verbatim>\<open>image_part\<close> is the decoded upload, or \<^verbatim>\<open>None\<close> without one.\<close>

definition sidebar_image :: "'img widgets \<Rightarrow> exn + 'img option" where
  "sidebar_image w =
     (case uploaded_file w of
        None \<Rightarrow> Inr None
      | Some (Inl m) \<Rightarrow> Inl (Raised m)
      | Some (Inr img) \<Rightarrow> Inr (Some img))"

definition run_stage ::
  "'img env \<Rightarrow> 'img widgets \<Rightarrow> 'img option \<Rightarrow> session \<Rightarrow> 'img stage_result" where
  "run_stage env w image_part s =
     (case stage s of
        INPUT \<Rightarrow> input_stage w image_part s
      | RECRUITING \<Rightarrow> recruiting_stage env w image_part s
      | SIMULATING \<Rightarrow> simulating_stage env w image_part s)"

definition run_script :: "'img env \<Rightarrow> 'img widgets \<Rightarrow> session option \<Rightarrow> 'img outcome" where
  "run_script env w state =
     (if (case api_key w of None \<Rightarrow> True | Some k \<Rightarrow> k = [])
      then \<lparr>final = state,
            effects = [StError ''SECURITY ALERT: API Key not found. Please set `GOOGLE_API_KEY` in Streamlit secrets''],
            ending = Stopped\<rparr>
      else
        (case sidebar_image w of
           Inl e \<Rightarrow> \<lparr>final = state, effects = [], ending = Crashed e\<rparr>
         | Inr image_part \<Rightarrow>
             (if pressed w = Some ResetSystem
              then \<lparr>final = None, effects = [], ending = Rerun\<rparr>
              else
                (case run_stage env w image_part (current state) of
                   (s', fx, t) \<Rightarrow> \<lparr>final = Some s', effects = fx, ending = t\<rparr>))))"

section \<open>Vocabulary for the properties\<close>

text \<open>
  The node statements and the edge statements of a \<^verbatim>\<open>Digraph\<close>, in the order of the
  calls that added them, with the arguments of the calls.
\<close>

fun stmt_nodes :: "dot_stmt \<Rightarrow> (string \<times> string \<times> (string \<times> string) list) list" where
  "stmt_nodes (Node name label attrs) = [(name, label, attrs)]"
| "stmt_nodes _ = []"

fun stmt_edges :: "dot_stmt \<Rightarrow> (string \<times> string \<times> string option) list" where
  "stmt_edges (Edge tail head label) = [(tail, head, label)]"
| "stmt_edges _ = []"

definition nodes :: "dot_stmt list \<Rightarrow> (string \<times> string \<times> (string \<times> string) list) list" where
  "nodes g = concat (map stmt_nodes g)"

definition edges :: "dot_stmt list \<Rightarrow> (string \<times> string \<times> string option) list" where
  "edges g = concat (map stmt_edges g)"

definition node_color :: "string \<times> string \<times> (string \<times> string) list \<Rightarrow> string option" where
  "node_color n = map_of (snd (snd n)) ''fillcolor''"

text \<open>
  The graph the statements make.  \<^verbatim>\<open>Digraph.edge\<close> of the graphviz library splits each
  end it is given at the first colon into a node name and a port, so an edge joins the
  nodes named by the parts before the colon; \<^verbatim>\<open>Digraph.node\<close> keeps the name whole.  A
  name is one node however many statements carry it (an edge end that no node statement
  carries is a node too), and of the statements for one name the later one decides the
  label and each attribute.
\<close>

definition edge_end :: "string \<Rightarrow> string" where
  "edge_end name = takeWhile (\<lambda>c. c \<noteq> CHR '':'') name"






text \<open>Reading a dictionary: whether it has a key, and the text an f-string makes of it.\<close>

definition has_field :: "json \<Rightarrow> string \<Rightarrow> bool" where
  "has_field v k = (case v of JObj d \<Rightarrow> map_of d k \<noteq> None | _ \<Rightarrow> False)"

definition field_text :: "(json \<Rightarrow> string) \<Rightarrow> json \<Rightarrow> string \<Rightarrow> string" where
  "field_text repr v k = (case getitem v k of Inr x \<Rightarrow> py_str repr x | Inl _ \<Rightarrow> [])"

definition scenarios_of :: "json \<Rightarrow> json list" where
  "scenarios_of sim =
     (case sim of
        JObj d \<Rightarrow> (case map_of d ''scenarios'' of Some (JList xs) \<Rightarrow> xs | _ \<Rightarrow> [])
      | _ \<Rightarrow> [])"


text \<open>
  A history entry as the data model has it: a dictionary with a title and a description
  (the seed entry), which carries a probability whenever it carries a risk level (a
  chosen scenario).
\<close>

definition HistoryEntry :: "json \<Rightarrow> bool" where
  "HistoryEntry v \<longleftrightarrow>
     has_field v ''title'' \<and> has_field v ''description''
     \<and> (has_field v ''risk_level'' \<longrightarrow> has_field v ''probability'')"

text \<open>
  The section of the report for the entry at index \<open>i\<close>, in the words of the
  specification: title, description, the reasoning trace if present, the line of risk
  and probability if present.
\<close>

definition section_spec :: "(json \<Rightarrow> string) \<Rightarrow> nat \<times> json \<Rightarrow> string" where
  "section_spec repr ie =
     (case ie of (i, e) \<Rightarrow>
        ''## Step '' @ str_int (int i + 1) @ '': '' @ field_text repr e ''title'' @ ''\<newline>''
        @ ''_'' @ field_text repr e ''description'' @ ''_\<newline>\<newline>''
        @ (if has_field e ''reasoning_trace''
           then ''> **Reasoning:** '' @ field_text repr e ''reasoning_trace'' @ ''\<newline>\<newline>''
           else [])
        @ (if has_field e ''risk_level''
           then ''**Metrics:** Risk: '' @ field_text repr e ''risk_level'' @ '' | Prob: ''
                @ field_text repr e ''probability'' @ ''%\<newline>''
           else [])
        @ ''---\<newline>'')"

text \<open>
  The graph in the words of the specification.  The spine: one node per history entry,
  labelled with its title, and from the second entry on an edge from the node before.
  The leaves: per scenario a node coloured by its risk level, and an edge from the
  node \<open>last_id\<close> labelled with the risk level.
\<close>

definition spine_spec :: "(json \<Rightarrow> string) \<Rightarrow> nat \<times> json \<Rightarrow> dot_stmt list" where
  "spine_spec repr ie =
     (case ie of (i, e) \<Rightarrow>
        spine_node (H_id (int i)) (field_text repr e ''title'')
        # (if i > 0 then [Edge (H_id (int i - 1)) (H_id (int i)) None] else []))"

definition leaf_spec :: "(json \<Rightarrow> string) \<Rightarrow> string \<Rightarrow> json \<Rightarrow> dot_stmt list" where
  "leaf_spec repr last_id opt =
     [leaf_node (''OPT_'' @ field_text repr opt ''id'')
        (leaf_label (field_text repr opt ''title'') (field_text repr opt ''time_horizon'')
           (field_text repr opt ''probability''))
        (risk_color (map ascii_lower (field_text repr opt ''risk_level''))),
      Edge last_id (''OPT_'' @ field_text repr opt ''id'')
        (Some (''Risk: '' @ field_text repr opt ''risk_level''))]"


text \<open>The positions at which a word occurs in a text.\<close>

definition occurrences :: "string \<Rightarrow> string \<Rightarrow> nat list" where
  "occurrences word text = filter (\<lambda>i. prefix word (drop i text)) [0..<Suc (length text)]"

text \<open>The agents a council lists, and what the card of an agent needs of it.\<close>

definition agents_of :: "json \<Rightarrow> json list" where
  "agents_of council =
     (case council of
        JObj d \<Rightarrow> (case map_of d ''agents'' of Some (JList xs) \<Rightarrow> xs | _ \<Rightarrow> [])
      | _ \<Rightarrow> [])"

definition card_fields :: "json \<Rightarrow> bool" where
  "card_fields a \<longleftrightarrow>
     has_field a ''avatar'' \<and> has_field a ''name'' \<and> has_field a ''role'' \<and> has_field a ''stance''"

text \<open>The messages of the error boxes among the effects of a run.\<close>

definition errors_shown :: "'img effect list \<Rightarrow> string list" where
  "errors_shown fx = concat (map (\<lambda>e. case e of StError m \<Rightarrow> [m] | _ \<Rightarrow> []) fx)"

text \<open>
  What every session the script produces satisfies: the history holds well-formed
  entries and is empty in the stage \<^verbatim>\<open>INPUT\<close> only, a simulation is held in the stage
  \<^verbatim>\<open>SIMULATING\<close> only, and a simulation that is held was computed for the council that
  is held, so that council can be described.
\<close>

definition session_ok :: "(json \<Rightarrow> string) \<Rightarrow> session \<Rightarrow> bool" where
  "session_ok repr s \<longleftrightarrow>
     list_all HistoryEntry (history s)
     \<and> (stage s = INPUT \<or> history s \<noteq> [])
     \<and> (stage s = SIMULATING \<or> simulation s = JNull)
     \<and> (truthy (simulation s) \<longrightarrow> \<not> isl (agents_desc repr (agents s)))"

text \<open>The widgets of a run that gets past the key check and the sidebar.\<close>

definition key_present :: "'img widgets \<Rightarrow> bool" where
  "key_present w = (case api_key w of None \<Rightarrow> False | Some k \<Rightarrow> k \<noteq> [])"


section \<open>Concrete inputs\<close>

definition repr_ex :: "json \<Rightarrow> string" where
  "repr_ex v = []"

definition scenario_ex :: "string \<Rightarrow> string \<Rightarrow> string \<Rightarrow> json" where
  "scenario_ex sid title risk =
     JObj [(''id'', JStr sid), (''title'', JStr title), (''description'', JStr ''Markets split.''),
           (''probability'', JInt 40), (''time_horizon'', JStr ''Mid Term (1-2y)''),
           (''risk_level'', JStr risk), (''impact_score'', JInt 7),
           (''data_confidence'', JInt 60), (''assumption_stability'', JInt 50),
           (''reasoning_trace'', JStr ''Because of A.'')]"

definition simulation_ex :: json where
  "simulation_ex =
     JObj [(''scenarios'', JList [scenario_ex ''sc_1'' ''Rebound'' ''Low'',
                                  scenario_ex ''sc_2'' ''Clampdown'' ''High'',
                                  scenario_ex ''sc_3'' ''Collapse'' ''Critical'']),
           (''synthesis'', JStr ''The council is divided.''),
           (''black_swan_alert'', JNull)]"

definition agent_ex :: "string \<Rightarrow> json" where
  "agent_ex name =
     JObj [(''name'', JStr name), (''role'', JStr ''Analyst''), (''stance'', JStr ''Risk-Averse''),
           (''avatar'', JStr ''A'')]"

definition council_ex :: "nat \<Rightarrow> json" where
  "council_ex n = JObj [(''agents'', JList (map agent_ex (take n [''Vega'', ''Orion'', ''Lyra'', ''Draco''])))]"

definition env_ex :: "string + json \<Rightarrow> unit env" where
  "env_ex parsed =
     \<lparr>generate_content = (\<lambda>sch inputs. Inr ''{}''),
      json_loads = (\<lambda>text. parsed),
      strftime = ''2024-05-01 09:30:00'',
      py_repr = repr_ex\<rparr>"

definition env_down :: "unit env" where
  "env_down =
     \<lparr>generate_content = (\<lambda>sch inputs. Inl ''503 unavailable''),
      json_loads = (\<lambda>text. Inr JNull),
      strftime = ''2024-05-01 09:30:00'',
      py_repr = repr_ex\<rparr>"

definition widgets_ex :: "button option \<Rightarrow> unit widgets" where
  "widgets_ex b =
     \<lparr>api_key = Some ''key'', uploaded_file = None, show_reasoning = True,
      user_input = [], pressed = b\<rparr>"

definition session_ex :: "stage \<Rightarrow> json \<Rightarrow> json \<Rightarrow> session" where
  "session_ex st council sim =
     \<lparr>stage = st, history = [start_entry ''AI Ban''], agents = council, simulation = sim\<rparr>"

definition entry_without_probability :: json where
  "entry_without_probability =
     JObj [(''title'', JStr ''Clampdown''), (''description'', JStr ''Markets split.''),
           (''risk_level'', JStr ''High'')]"

text \<open>A response that parses and does not have the declared shape (no synthesis).\<close>

definition simulation_mismatch :: json where
  "simulation_mismatch = JObj [(''scenarios'', JList [])]"



section \<open>Basic facts about the primitives\<close>

lemma bind_Inl [simp]: "bind (Inl e) f = Inl e"
  by (simp add: bind_def)

lemma bind_Inr [simp]: "bind (Inr x) f = f x"
  by (simp add: bind_def)

lemma H_id_minus_one: "H_id (- 1) = ''H_-1''"
  by code_simp

lemma getitem_JObj:
  "getitem (JObj d) k = (case map_of d k of None \<Rightarrow> Inl (KeyError k) | Some x \<Rightarrow> Inr x)"
  by (simp add: getitem_def)

lemma contains_JObj: "contains k (JObj d) = Inr (map_of d k \<noteq> None)"
  by (simp add: contains_def)

lemma getitem_has_field:
  "has_field v k \<Longrightarrow> \<exists>x. getitem v k = Inr x \<and> field_text repr v k = py_str repr x"
  by (auto simp: has_field_def getitem_def field_text_def split: json.splits)

lemma contains_has_field:
  "has_field v k' \<Longrightarrow> contains k v = Inr (has_field v k)"
  by (auto simp: has_field_def contains_def split: json.splits)

section \<open>The report exporter\<close>

lemma report_step_dict:
  "report_step repr i (JObj d) = Inl x \<Longrightarrow> \<exists>k. x = KeyError k"
  by (auto simp: report_step_def getitem_JObj contains_JObj split: option.splits if_splits)

lemma report_step_missing_probability:
  assumes "map_of d ''risk_level'' \<noteq> None" "map_of d ''probability'' = None"
  shows "\<exists>k. report_step repr i (JObj d) = Inl (KeyError k)"
  using assms
  by (auto simp: report_step_def getitem_JObj contains_JObj split: option.splits)

lemma report_loop_raises:
  assumes "e \<in> set hist" "\<And>i. \<exists>x. report_step repr i e = Inl x"
  shows "\<exists>x. report_loop repr i hist acc = Inl x"
  using assms(1)
proof (induction hist arbitrary: i acc)
  case Nil
  then show ?case by simp
next
  case (Cons a hist)
  show ?case
  proof (cases "report_step repr i a")
    case (Inl x)
    then show ?thesis by simp
  next
    case (Inr s)
    show ?thesis
    proof (cases "e = a")
      case True
      with assms(2)[of i] Inr show ?thesis by simp
    next
      case False
      with Cons.prems have "e \<in> set hist" by simp
      from Cons.IH[OF this] Inr show ?thesis by simp
    qed
  qed
qed

lemma report_loop_dicts:
  assumes "\<forall>v\<in>set hist. \<exists>d. v = JObj d" "report_loop repr i hist acc = Inl x"
  shows "\<exists>k. x = KeyError k"
  using assms
proof (induction hist arbitrary: i acc)
  case Nil
  then show ?case by simp
next
  case (Cons a hist)
  then obtain d where a: "a = JObj d" by auto
  show ?case
  proof (cases "report_step repr i a")
    case (Inl y)
    with Cons.prems(2) have "x = y" by simp
    with Inl a report_step_dict show ?thesis by blast
  next
    case (Inr s)
    with Cons.prems have "report_loop repr (Suc i) hist (acc @ s) = Inl x" by simp
    moreover from Cons.prems(1) have "\<forall>v\<in>set hist. \<exists>d. v = JObj d" by simp
    ultimately show ?thesis using Cons.IH by blast
  qed
qed

text \<open>
  Claim C8.  A history entry that has the key \<^verbatim>\<open>risk_level\<close> and lacks the key
  \<^verbatim>\<open>probability\<close> makes \<^verbatim>\<open>generate_markdown_report\<close> raise instead of returning a
  document; over a history of dictionaries (the only entries the script appends) the
  exception is a \<^verbatim>\<open>KeyError\<close>.
\<close>

theorem report_raises_without_probability:
  assumes "e \<in> set hist" "e = JObj d"
    and "map_of d ''risk_level'' \<noteq> None" "map_of d ''probability'' = None"
  shows "(\<exists>x. generate_markdown_report env hist = Inl x)
       \<and> ((\<forall>v\<in>set hist. \<exists>d'. v = JObj d')
            \<longrightarrow> (\<exists>k. generate_markdown_report env hist = Inl (KeyError k)))"
proof -
  have step: "\<exists>x. report_step (py_repr env) i e = Inl x" for i
    using report_step_missing_probability[OF assms(3,4), of "py_repr env" i]
    unfolding assms(2) by (elim exE) (rule exI)
  obtain x where x: "report_loop (py_repr env) 0 hist (report_head (strftime env)) = Inl x"
    using report_loop_raises[OF assms(1) step, of 0 "report_head (strftime env)"] by blast
  have "\<exists>k. x = KeyError k" if "\<forall>v\<in>set hist. \<exists>d'. v = JObj d'"
    using report_loop_dicts[OF that x] .
  with x show ?thesis
    unfolding generate_markdown_report_def by auto
qed

theorem report_raises_without_probability_witness:
  "entry_without_probability \<in> set [start_entry ''AI Ban'', entry_without_probability]
   \<and> (\<exists>x. generate_markdown_report (env_ex (Inr JNull))
              [start_entry ''AI Ban'', entry_without_probability] = Inl x)
   \<and> generate_markdown_report (env_ex (Inr JNull))
         [start_entry ''AI Ban'', entry_without_probability] = Inl (KeyError ''probability'')"
proof -
  let ?d = "[(''title'', JStr ''Clampdown''), (''description'', JStr ''Markets split.''),
             (''risk_level'', JStr ''High'')]"
  let ?hist = "[start_entry ''AI Ban'', entry_without_probability]"
  have h1: "entry_without_probability \<in> set ?hist" by simp
  have h2: "entry_without_probability = JObj ?d"
    by (simp add: entry_without_probability_def)
  have h3: "map_of ?d ''risk_level'' \<noteq> None" by simp
  have h4: "map_of ?d ''probability'' = None" by simp
  have v: "generate_markdown_report (env_ex (Inr JNull)) ?hist = Inl (KeyError ''probability'')"
    by code_simp
  from report_raises_without_probability[OF h1 h2 h3 h4, of "env_ex (Inr JNull)"]
  have "\<exists>x. generate_markdown_report (env_ex (Inr JNull)) ?hist = Inl x"
    by (rule conjunct1)
  with h1 v show ?thesis
    by (intro conjI)
qed

lemma report_step_entry:
  assumes "HistoryEntry e"
  shows "report_step repr i e = Inr (section_spec repr (i, e))"
proof -
  from assms obtain d where e: "e = JObj d"
    by (auto simp: HistoryEntry_def has_field_def split: json.splits)
  from assms obtain t ds where t: "map_of d ''title'' = Some t"
    and ds: "map_of d ''description'' = Some ds"
    unfolding e by (auto simp: HistoryEntry_def has_field_def)
  from assms have p: "map_of d ''risk_level'' \<noteq> None \<Longrightarrow> map_of d ''probability'' \<noteq> None"
    unfolding e by (simp add: HistoryEntry_def has_field_def)
  show ?thesis
  proof (cases "map_of d ''reasoning_trace''")
    case None
    note rt = this
    show ?thesis
    proof (cases "map_of d ''risk_level''")
      case None
      with rt t ds show ?thesis
        unfolding e
        by (simp add: has_field_def report_step_def section_spec_def
            getitem_JObj contains_JObj field_text_def)
    next
      case (Some rl)
      with p obtain pr where "map_of d ''probability'' = Some pr" by auto
      with Some rt t ds show ?thesis
        unfolding e
        by (simp add: has_field_def report_step_def section_spec_def
            getitem_JObj contains_JObj field_text_def)
    qed
  next
    case (Some r)
    note rt = this
    show ?thesis
    proof (cases "map_of d ''risk_level''")
      case None
      with rt t ds show ?thesis
        unfolding e
        by (simp add: has_field_def report_step_def section_spec_def
            getitem_JObj contains_JObj field_text_def)
    next
      case (Some rl)
      with p obtain pr where "map_of d ''probability'' = Some pr" by auto
      with Some rt t ds show ?thesis
        unfolding e
        by (simp add: has_field_def report_step_def section_spec_def
            getitem_JObj contains_JObj field_text_def)
    qed
  qed
qed

lemma report_loop_entries:
  "list_all HistoryEntry hist \<Longrightarrow>
   report_loop repr i hist acc = Inr (acc @ concat (map (section_spec repr) (enumerate i hist)))"
  by (induction hist arbitrary: i acc) (simp_all add: report_step_entry)

text \<open>
  Claim C6.  For a history of well-formed entries the report is the heading, the line of
  the timestamp, then one section per entry in order (\<^const>\<open>section_spec\<close>: title,
  description, reasoning trace if present, risk and probability line if present); the
  timestamp is the only part that depends on the time of the export.
\<close>

theorem report_structure:
  assumes "list_all HistoryEntry hist"
  shows "generate_markdown_report env hist =
           Inr (''# TIMEFOLD STRATEGIC REPORT\<newline>''
                @ ''**Date:** '' @ strftime env @ ''\<newline>\<newline>''
                @ concat (map (section_spec (py_repr env)) (enumerate 0 hist)))
       \<and> generate_markdown_report (env\<lparr>strftime := later\<rparr>) hist =
           Inr (''# TIMEFOLD STRATEGIC REPORT\<newline>''
                @ ''**Date:** '' @ later @ ''\<newline>\<newline>''
                @ concat (map (section_spec (py_repr env)) (enumerate 0 hist)))"
  using report_loop_entries[OF assms]
  by (simp add: generate_markdown_report_def report_head_def)

theorem report_structure_witness:
  "list_all HistoryEntry [start_entry ''AI Ban'', scenario_ex ''sc_2'' ''Clampdown'' ''High'']
   \<and> generate_markdown_report (env_ex (Inr JNull))
         [start_entry ''AI Ban'', scenario_ex ''sc_2'' ''Clampdown'' ''High''] =
       Inr ''# TIMEFOLD STRATEGIC REPORT\<newline>**Date:** 2024-05-01 09:30:00\<newline>\<newline>## Step 1: START\<newline>_AI Ban_\<newline>\<newline>---\<newline>## Step 2: Clampdown\<newline>_Markets split._\<newline>\<newline>> **Reasoning:** Because of A.\<newline>\<newline>**Metrics:** Risk: High | Prob: 40%\<newline>---\<newline>''"
proof -
  let ?hist = "[start_entry ''AI Ban'', scenario_ex ''sc_2'' ''Clampdown'' ''High'']"
  have h: "list_all HistoryEntry ?hist"
    by code_simp
  have e: "''# TIMEFOLD STRATEGIC REPORT\<newline>''
                @ ''**Date:** '' @ strftime (env_ex (Inr JNull)) @ ''\<newline>\<newline>''
                @ concat (map (section_spec (py_repr (env_ex (Inr JNull)))) (enumerate 0 ?hist))
     = ''# TIMEFOLD STRATEGIC REPORT\<newline>**Date:** 2024-05-01 09:30:00\<newline>\<newline>## Step 1: START\<newline>_AI Ban_\<newline>\<newline>---\<newline>## Step 2: Clampdown\<newline>_Markets split._\<newline>\<newline>> **Reasoning:** Because of A.\<newline>\<newline>**Metrics:** Risk: High | Prob: 40%\<newline>---\<newline>''"
    by code_simp
  note r = report_structure[OF h, of "env_ex (Inr JNull)", THEN conjunct1, unfolded e]
  from h r show ?thesis
    by (intro conjI)
qed

section \<open>The tree renderer\<close>

declare string_of_nat.simps [simp del]





lemma spine_loop_titles:
  "list_all (\<lambda>e. has_field e ''title'') hist \<Longrightarrow>
   spine_loop repr i hist dot = Inr (dot @ concat (map (spine_spec repr) (enumerate i hist)))"
proof (induction hist arbitrary: i dot)
  case Nil
  then show ?case by simp
next
  case (Cons e hist)
  then have "has_field e ''title''" by simp
  from getitem_has_field[OF this, of repr]
  obtain t where "getitem e ''title'' = Inr t" "field_text repr e ''title'' = py_str repr t"
    by blast
  with Cons show ?case
    by (simp add: spine_spec_def)
qed

lemma str_field_getitem:
  "str_field d k \<Longrightarrow> \<exists>s. map_of d k = Some (JStr s)"
  by (auto simp: str_field_def split: option.splits json.splits)

lemma int_field_getitem:
  "int_field d k \<Longrightarrow> \<exists>n. map_of d k = Some (JInt n)"
  by (auto simp: int_field_def split: option.splits json.splits)

lemma leaf_stmts_ScenarioNode:
  assumes "ScenarioNode opt"
  shows "leaf_stmts repr last_id opt = Inr (leaf_spec repr last_id opt)"
proof -
  from assms obtain d where opt: "opt = JObj d"
    by (auto simp: ScenarioNode_def split: json.splits)
  from assms obtain sid t th rl p where
    "map_of d ''id'' = Some (JStr sid)" "map_of d ''title'' = Some (JStr t)"
    "map_of d ''time_horizon'' = Some (JStr th)" "map_of d ''risk_level'' = Some (JStr rl)"
    "map_of d ''probability'' = Some (JInt p)"
    unfolding opt ScenarioNode_def
    by (auto dest!: str_field_getitem int_field_getitem)
  then show ?thesis
    unfolding opt
    by (simp add: leaf_stmts_def leaf_spec_def getitem_JObj get_def lower_def field_text_def
        py_str_def)
qed

lemma leaf_loop_ScenarioNodes:
  "list_all ScenarioNode opts \<Longrightarrow>
   leaf_loop repr last_id opts dot = Inr (dot @ concat (map (leaf_spec repr last_id) opts))"
  by (induction opts arbitrary: dot) (simp_all add: leaf_stmts_ScenarioNode)

lemma SimulationOutput_shapeD:
  assumes "SimulationOutput_shape sim"
  shows "\<exists>d syn. sim = JObj d \<and> map_of d ''scenarios'' = Some (JList (scenarios_of sim))
           \<and> list_all ScenarioNode (scenarios_of sim)
           \<and> map_of d ''synthesis'' = Some (JStr syn)"
  using assms
  by (auto simp: SimulationOutput_shape_def scenarios_of_def
      dest!: str_field_getitem split: json.splits option.splits)


lemma draw_tree_simulation:
  assumes "list_all (\<lambda>e. has_field e ''title'') hist" "SimulationOutput_shape options"
  shows "draw_advanced_tree repr hist options =
           Inr (graph_header @ concat (map (spine_spec repr) (enumerate 0 hist))
                @ concat (map (leaf_spec repr (H_id (int (length hist) - 1)))
                            (scenarios_of options)))"
proof -
  from SimulationOutput_shapeD[OF assms(2)] obtain d where
    d: "options = JObj d" "map_of d ''scenarios'' = Some (JList (scenarios_of options))"
    "list_all ScenarioNode (scenarios_of options)"
    by blast
  then have "truthy options" by (auto simp: truthy_def)
  with d assms(1) show ?thesis
    by (simp add: draw_advanced_tree_def spine_loop_titles get_def iterate_def
        leaf_loop_ScenarioNodes del: d(1))
qed



lemma nodes_append [simp]: "nodes (a @ b) = nodes a @ nodes b"
  by (simp add: nodes_def)

lemma edges_append [simp]: "edges (a @ b) = edges a @ edges b"
  by (simp add: edges_def)

lemma nodes_Cons [simp]: "nodes (x # g) = stmt_nodes x @ nodes g"
  by (simp add: nodes_def)

lemma edges_Cons [simp]: "edges (x # g) = stmt_edges x @ edges g"
  by (simp add: edges_def)

lemma nodes_Nil [simp]: "nodes [] = []"
  by (simp add: nodes_def)

lemma edges_Nil [simp]: "edges [] = []"
  by (simp add: edges_def)

lemma header_view [simp]: "nodes graph_header = []" "edges graph_header = []"
  by (simp_all add: graph_header_def)

lemma nodes_spine:
  "nodes (concat (map (spine_spec repr) (enumerate i hist))) =
     map (\<lambda>(k, e). (H_id (int k), field_text repr e ''title'', spine_attrs)) (enumerate i hist)"
  by (induction hist arbitrary: i) (simp_all add: spine_spec_def spine_node_def)


lemma nodes_leaves:
  "nodes (concat (map (leaf_spec repr last_id) opts)) =
     map (\<lambda>opt. (''OPT_'' @ field_text repr opt ''id'',
                  leaf_label (field_text repr opt ''title'') (field_text repr opt ''time_horizon'')
                    (field_text repr opt ''probability''),
                  [(''shape'', ''note''), (''style'', ''filled''),
                   (''fillcolor'', risk_color (map ascii_lower (field_text repr opt ''risk_level'')))]))
       opts"
  by (induction opts) (simp_all add: leaf_spec_def leaf_node_def)

lemma edges_leaves:
  "edges (concat (map (leaf_spec repr last_id) opts)) =
     map (\<lambda>opt. (last_id, ''OPT_'' @ field_text repr opt ''id'',
                  Some (''Risk: '' @ field_text repr opt ''risk_level''))) opts"
  by (induction opts) (simp_all add: leaf_spec_def leaf_node_def)




lemma spine_node_labels:
  "map (\<lambda>n. fst (snd n)) (nodes (concat (map (spine_spec repr) (enumerate i hist)))) =
     map (\<lambda>e. field_text repr e ''title'') hist"
proof -
  have "map (\<lambda>n. fst (snd n))
          (map (\<lambda>(k, e). (H_id (int k), field_text repr e ''title'', spine_attrs)) es)
          = map (\<lambda>e. field_text repr e ''title'') (map snd es)" for es :: "(nat \<times> json) list"
    by (induction es) auto
  then show ?thesis
    by (simp add: nodes_spine del: map_map)
qed

lemma spine_nodes_length:
  "length (nodes (concat (map (spine_spec repr) (enumerate i hist)))) = length hist"
  by (simp add: nodes_spine)

lemma leaf_node_colors:
  "map node_color (nodes (concat (map (leaf_spec repr last_id) opts))) =
     map (\<lambda>opt. Some (risk_color (map ascii_lower (field_text repr opt ''risk_level'')))) opts"
  by (simp add: nodes_leaves node_color_def comp_def)

lemma leaf_node_ids:
  "map fst (nodes (concat (map (leaf_spec repr last_id) opts))) =
     map (\<lambda>opt. ''OPT_'' @ field_text repr opt ''id'') opts"
  by (simp add: nodes_leaves comp_def)

lemma string_of_nat_no_colon: "CHR '':'' \<notin> set (string_of_nat n)"
proof (induction n rule: string_of_nat.induct)
  case (1 n)
  have d: "char_of (48 + k) \<noteq> CHR '':''" if "k < 10" for k :: nat
  proof
    assume "char_of (48 + k) = CHR '':''"
    then have "of_char (char_of (48 + k) :: char) = (of_char CHR '':'' :: nat)" by simp
    with that show False by simp
  qed
  show ?case
  proof (cases "n < 10")
    case True
    with d[of n] show ?thesis
      by (subst string_of_nat.simps) simp
  next
    case False
    have "n mod 10 < 10" by simp
    from d[OF this] False 1 show ?thesis
      by (subst string_of_nat.simps) simp
  qed
qed

lemma H_id_no_colon: "CHR '':'' \<notin> set (H_id i)"
  by (simp add: H_id_def str_int_def string_of_nat_no_colon)

lemma edge_end_whole: "CHR '':'' \<notin> set name \<Longrightarrow> edge_end name = name"
  by (auto simp: edge_end_def takeWhile_eq_all_conv)

lemma edge_end_H_id [simp]: "edge_end (H_id i) = H_id i"
  by (rule edge_end_whole) (rule H_id_no_colon)














text \<open>
  Claim C10.  With an empty history and a simulation of the declared shape the renderer
  does not fail: it returns a graph with one edge per scenario, each leaving from the
  name \<open>H_-1\<close>, and no node of the graph has that name.
\<close>

theorem empty_history_phantom_root:
  assumes "SimulationOutput_shape options"
  shows "\<exists>g. draw_advanced_tree repr [] options = Inr g
     \<and> edges g =
         map (\<lambda>opt. (''H_-1'', ''OPT_'' @ field_text repr opt ''id'',
                      Some (''Risk: '' @ field_text repr opt ''risk_level'')))
           (scenarios_of options)
     \<and> length (edges g) = length (scenarios_of options)
     \<and> ''H_-1'' \<notin> set (map fst (nodes g))"
proof -
  let ?g = "graph_header @ concat (map (leaf_spec repr ''H_-1'') (scenarios_of options))"
  have g: "draw_advanced_tree repr [] options = Inr ?g"
    using draw_tree_simulation[of "[]" options repr, OF _ assms]
    by (simp add: H_id_minus_one)
  have es: "edges ?g =
         map (\<lambda>opt. (''H_-1'', ''OPT_'' @ field_text repr opt ''id'',
                      Some (''Risk: '' @ field_text repr opt ''risk_level'')))
           (scenarios_of options)"
    by (simp add: edges_leaves)
  have ns: "''H_-1'' \<notin> set (map fst (nodes ?g))"
    by (auto simp: leaf_node_ids)
  from g es ns show ?thesis
    by (intro exI[of _ ?g]) simp
qed

theorem empty_history_phantom_root_witness:
  "SimulationOutput_shape simulation_ex
   \<and> (\<exists>g. draw_advanced_tree repr_ex [] simulation_ex = Inr g
        \<and> edges g = [(''H_-1'', ''OPT_sc_1'', Some ''Risk: Low''),
                      (''H_-1'', ''OPT_sc_2'', Some ''Risk: High''),
                      (''H_-1'', ''OPT_sc_3'', Some ''Risk: Critical'')]
        \<and> ''H_-1'' \<notin> set (map fst (nodes g)))"
proof -
  have h: "SimulationOutput_shape simulation_ex"
    by code_simp
  have e: "map (\<lambda>opt. (''H_-1'', ''OPT_'' @ field_text repr_ex opt ''id'',
                      Some (''Risk: '' @ field_text repr_ex opt ''risk_level'')))
           (scenarios_of simulation_ex)
       = [(''H_-1'', ''OPT_sc_1'', Some ''Risk: Low''),
          (''H_-1'', ''OPT_sc_2'', Some ''Risk: High''),
          (''H_-1'', ''OPT_sc_3'', Some ''Risk: Critical'')]"
    by code_simp
  from empty_history_phantom_root[OF h, of repr_ex] obtain g where
    pg: "draw_advanced_tree repr_ex [] simulation_ex = Inr g
     \<and> edges g =
         map (\<lambda>opt. (''H_-1'', ''OPT_'' @ field_text repr_ex opt ''id'',
                      Some (''Risk: '' @ field_text repr_ex opt ''risk_level'')))
           (scenarios_of simulation_ex)
     \<and> length (edges g) = length (scenarios_of simulation_ex)
     \<and> ''H_-1'' \<notin> set (map fst (nodes g))" ..
  note g = pg[THEN conjunct1]
  note es = pg[THEN conjunct2, THEN conjunct1, unfolded e]
  note ns = pg[THEN conjunct2, THEN conjunct2, THEN conjunct2]
  from g es ns
  have "\<exists>g. draw_advanced_tree repr_ex [] simulation_ex = Inr g
        \<and> edges g = [(''H_-1'', ''OPT_sc_1'', Some ''Risk: Low''),
                      (''H_-1'', ''OPT_sc_2'', Some ''Risk: High''),
                      (''H_-1'', ''OPT_sc_3'', Some ''Risk: Critical'')]
        \<and> ''H_-1'' \<notin> set (map fst (nodes g))"
    by (intro exI[of _ g] conjI)
  with h show ?thesis
    by (intro conjI)
qed

section \<open>The prompt of the recruitment\<close>

lemma sublist_between: "sublist xs (ps @ xs @ ss)"
  by (rule sublist_appendI)

lemma recruit_prompt_mentions:
  "sublist ''Recruit 3 distinct strategic experts'' (recruit_prompt repr context)"
  "sublist ''No honorifics.'' (recruit_prompt repr context)"
  "sublist ''Diverse perspectives.'' (recruit_prompt repr context)"
proof -
  have "recruit_prompt repr context =
          ''MISSION: '' @ ''Recruit 3 distinct strategic experts''
          @ ('' to analyze: '' @ py_str repr context @ ''. RULES: No honorifics. Diverse perspectives.'')"
    by (simp add: recruit_prompt_def)
  then show "sublist ''Recruit 3 distinct strategic experts'' (recruit_prompt repr context)"
    using sublist_between by metis
  have "recruit_prompt repr context =
          (''MISSION: Recruit 3 distinct strategic experts to analyze: '' @ py_str repr context
             @ ''. RULES: '') @ ''No honorifics.'' @ '' Diverse perspectives.''"
    by (simp add: recruit_prompt_def)
  then show "sublist ''No honorifics.'' (recruit_prompt repr context)"
    using sublist_between by metis
  have "recruit_prompt repr context =
          (''MISSION: Recruit 3 distinct strategic experts to analyze: '' @ py_str repr context
             @ ''. RULES: No honorifics. '') @ ''Diverse perspectives.'' @ []"
    by (simp add: recruit_prompt_def)
  then show "sublist ''Diverse perspectives.'' (recruit_prompt repr context)"
    using sublist_between by metis
qed

lemma recruit_template_honorifics:
  "occurrences ''onorific'' ''MISSION: Recruit 3 distinct strategic experts to analyze: '' = []"
  "occurrences ''onorific'' ''. RULES: No honorifics. Diverse perspectives.'' = [13]"
  "take 14 (drop 9 ''. RULES: No honorifics. Diverse perspectives.'') = ''No honorifics.''"
  by code_simp+

text \<open>
  Claim C7.  Whatever the context, the prompt of the recruitment is the fixed text
  around the context: it asks for 3 distinct experts, states the rule \<open>No honorifics.\<close>
  and asks for diverse perspectives; the fixed text mentions honorifics once, in that
  rule.  The request holds the prompt alone without an image, and with an image the
  prompt, the image and the instruction to analyze the visual data, in this order.
\<close>

theorem recruitment_prompt_contents:
  "recruit_prompt repr context =
       ''MISSION: Recruit 3 distinct strategic experts to analyze: '' @ py_str repr context
       @ ''. RULES: No honorifics. Diverse perspectives.''
   \<and> sublist ''Recruit 3 distinct strategic experts'' (recruit_prompt repr context)
   \<and> sublist ''No honorifics.'' (recruit_prompt repr context)
   \<and> sublist ''Diverse perspectives.'' (recruit_prompt repr context)
   \<and> occurrences ''onorific'' ''MISSION: Recruit 3 distinct strategic experts to analyze: '' = []
   \<and> occurrences ''onorific'' ''. RULES: No honorifics. Diverse perspectives.'' = [13]
   \<and> take 14 (drop 9 ''. RULES: No honorifics. Diverse perspectives.'') = ''No honorifics.''
   \<and> recruit_inputs repr context None = [Text (recruit_prompt repr context)]
   \<and> recruit_inputs repr context (Some img) =
       [Text (recruit_prompt repr context), Image img, Text ''Analyze visual data.'']
   \<and> fst (recruit_agents env context image_part) =
       [Request Council (recruit_inputs (py_repr env) context image_part)]"
proof (intro conjI)
  show "recruit_prompt repr context =
       ''MISSION: Recruit 3 distinct strategic experts to analyze: '' @ py_str repr context
       @ ''. RULES: No honorifics. Diverse perspectives.''"
    by (simp add: recruit_prompt_def)
  show "recruit_inputs repr context None = [Text (recruit_prompt repr context)]"
    by (simp add: recruit_inputs_def)
  show "recruit_inputs repr context (Some img) =
       [Text (recruit_prompt repr context), Image img, Text ''Analyze visual data.'']"
    by (simp add: recruit_inputs_def)
  show "fst (recruit_agents env context image_part) =
       [Request Council (recruit_inputs (py_repr env) context image_part)]"
    by (simp add: recruit_agents_def Let_def)
qed (rule recruit_prompt_mentions recruit_template_honorifics)+

theorem recruitment_prompt_contents_witness:
  "recruit_prompt repr_ex (JStr ''AI Ban'') =
       ''MISSION: Recruit 3 distinct strategic experts to analyze: AI Ban. RULES: No honorifics. Diverse perspectives.''
   \<and> recruit_inputs repr_ex (JStr ''AI Ban'') (Some ()) =
       [Text ''MISSION: Recruit 3 distinct strategic experts to analyze: AI Ban. RULES: No honorifics. Diverse perspectives.'',
        Image (), Text ''Analyze visual data.'']"
proof -
  have p: "py_str repr_ex (JStr ''AI Ban'') = ''AI Ban''"
    by (simp add: py_str_def)
  note t = recruitment_prompt_contents[of repr_ex "JStr ''AI Ban''" "()" "env_ex (Inr JNull)" None]
  from t[THEN conjunct1] have a: "recruit_prompt repr_ex (JStr ''AI Ban'') =
       ''MISSION: Recruit 3 distinct strategic experts to analyze: AI Ban. RULES: No honorifics. Diverse perspectives.''"
    by (simp add: p)
  note b = t[THEN conjunct2, THEN conjunct2, THEN conjunct2, THEN conjunct2, THEN conjunct2,
      THEN conjunct2, THEN conjunct2, THEN conjunct2, THEN conjunct1, unfolded a]
  from a b show ?thesis
    by (intro conjI)
qed

section \<open>Runs of the script\<close>

lemma run_script_stage:
  assumes "key_present w" "sidebar_image w = Inr image_part" "pressed w \<noteq> Some ResetSystem"
  shows "run_script env w state =
           (case run_stage env w image_part (current state) of
              (s', fx, t) \<Rightarrow> \<lparr>final = Some s', effects = fx, ending = t\<rparr>)"
  using assms
  by (auto simp: run_script_def key_present_def split: option.splits)

subsection \<open>Stage INPUT\<close>

text \<open>
  Claim C9.  In the stage \<^verbatim>\<open>INPUT\<close>, the button INITIALIZE SYSTEM pressed with an empty
  text area and an uploaded image appends the entry with title \<open>START\<close> and the fixed
  description, moves to \<^verbatim>\<open>RECRUITING\<close> and reruns; nothing else changes.
\<close>

theorem initialize_with_image_only:
  assumes "key_present w"
    and "uploaded_file w = Some (Inr img)"
    and "user_input w = []"
    and "pressed w = Some InitializeSystem"
    and "stage (current state) = INPUT"
  shows "run_script env w state =
           \<lparr>final = Some ((current state)
                    \<lparr>history := history (current state)
                        @ [JObj [(''title'', JStr ''START''),
                                 (''description'', JStr ''Analyze the uploaded visual data.'')]],
                     stage := RECRUITING\<rparr>),
            effects = [], ending = Rerun\<rparr>"
proof -
  from assms(2) have img: "sidebar_image w = Inr (Some img)"
    by (simp add: sidebar_image_def)
  from assms(4) have nr: "pressed w \<noteq> Some ResetSystem" by simp
  show ?thesis
    unfolding run_script_stage[OF assms(1) img nr]
    using assms(3,4,5)
    by (simp add: run_stage_def input_stage_def enter_recruiting_def start_entry_def)
qed

theorem initialize_with_image_only_witness:
  "key_present (widgets_ex (Some InitializeSystem)\<lparr>uploaded_file := Some (Inr ())\<rparr>)
   \<and> stage (current None) = INPUT
   \<and> run_script env_down (widgets_ex (Some InitializeSystem)\<lparr>uploaded_file := Some (Inr ())\<rparr>) None =
       \<lparr>final = Some \<lparr>stage = RECRUITING,
                      history = [JObj [(''title'', JStr ''START''),
                                       (''description'', JStr ''Analyze the uploaded visual data.'')]],
                      agents = JNull, simulation = JNull\<rparr>,
        effects = [], ending = Rerun\<rparr>"
proof -
  let ?w = "widgets_ex (Some InitializeSystem)\<lparr>uploaded_file := Some (Inr ())\<rparr>"
  have h1: "key_present ?w" by (simp add: key_present_def widgets_ex_def)
  have h2: "uploaded_file ?w = Some (Inr ())" by simp
  have h3: "user_input ?w = []" by (simp add: widgets_ex_def)
  have h4: "pressed ?w = Some InitializeSystem" by (simp add: widgets_ex_def)
  have h5: "stage (current None) = INPUT" by (simp add: current_def fresh_session_def)
  from initialize_with_image_only[OF h1 h2 h3 h4 h5, of env_down] h1 h5 show ?thesis
    by (simp add: current_def fresh_session_def)
qed

section \<open>Runs of the stages \<^verbatim>\<open>RECRUITING\<close> and \<^verbatim>\<open>SIMULATING\<close>\<close>

lemma getitem_Inr_has_field: "(\<exists>x. getitem v k = Inr x) \<longleftrightarrow> has_field v k"
  by (auto simp: getitem_def has_field_def split: json.splits option.splits)

lemma last_context_entries:
  assumes "history s \<noteq> []" "list_all HistoryEntry (history s)"
  shows "\<exists>c. last_context s = Inr c"
proof -
  from assms have "HistoryEntry (last (history s))"
    by (simp add: list_all_iff)
  then have "has_field (last (history s)) ''description''"
    by (simp add: HistoryEntry_def)
  with assms(1) show ?thesis
    by (simp add: last_context_def getitem_Inr_has_field)
qed

lemma HistoryEntry_titles:
  "list_all HistoryEntry hist \<Longrightarrow> list_all (\<lambda>e. has_field e ''title'') hist"
  by (induction hist) (simp_all add: HistoryEntry_def)

lemma agent_card_fields:
  "card_fields a \<Longrightarrow>
   bind (getitem a ''avatar'') (\<lambda>_. bind (getitem a ''name'') (\<lambda>_.
     bind (getitem a ''role'') (\<lambda>_. bind (getitem a ''stance'') (\<lambda>_. k)))) = k"
  by (auto simp: card_fields_def has_field_def getitem_def split: json.splits)

lemma agent_card_fields_missing:
  "\<not> card_fields a \<Longrightarrow>
   \<exists>e. bind (getitem a ''avatar'') (\<lambda>_. bind (getitem a ''name'') (\<lambda>_.
     bind (getitem a ''role'') (\<lambda>_. bind (getitem a ''stance'') (\<lambda>_. k)))) = Inl e"
  by (auto simp: card_fields_def has_field_def getitem_def split: json.splits option.splits)

lemma agent_cards_accepts:
  "agent_cards i ags = Inr () \<longleftrightarrow> (ags = [] \<or> i + length ags \<le> 3) \<and> list_all card_fields ags"
proof (induction ags arbitrary: i)
  case Nil
  then show ?case by simp
next
  case (Cons a ags)
  show ?case
  proof (cases "i \<ge> 3")
    case True
    then show ?thesis by simp
  next
    case False
    show ?thesis
    proof (cases "card_fields a")
      case True
      with False Cons[of "Suc i"] show ?thesis
        by (auto simp: agent_card_fields)
    next
      case f: False
      from agent_card_fields_missing[OF this, of "agent_cards (Suc i) ags"] False f
      show ?thesis by auto
    qed
  qed
qed

lemma show_council_accepts:
  assumes "map_of d ''agents'' = Some (JList ags)"
  shows "show_council (JObj d) = Inr () \<longleftrightarrow> length ags \<le> 3 \<and> list_all card_fields ags"
  using assms
  by (auto simp: show_council_def getitem_JObj iterate_def agent_cards_accepts)

lemma AgentProfile_line:
  "AgentProfile a \<Longrightarrow> \<exists>l. agent_line repr a = Inr l"
  by (auto simp: AgentProfile_def agent_line_def getitem_JObj
      dest!: str_field_getitem split: json.splits)

lemma mapM_all:
  "list_all (\<lambda>x. \<exists>y. f x = Inr y) xs \<Longrightarrow> \<exists>ys. mapM f xs = Inr ys"
  by (induction xs) auto

lemma Council_shapeD:
  assumes "Council_shape council"
  shows "\<exists>d. council = JObj d \<and> map_of d ''agents'' = Some (JList (agents_of council))
           \<and> list_all AgentProfile (agents_of council)"
  using assms
  by (auto simp: Council_shape_def agents_of_def split: json.splits option.splits)

lemma council_readable:
  assumes "Council_shape council"
  shows "\<exists>desc. agents_desc repr council = Inr desc"
proof -
  from Council_shapeD[OF assms] obtain d ags where c: "council = JObj d"
    "map_of d ''agents'' = Some (JList ags)" "list_all AgentProfile ags"
    by blast
  from c(3) have "list_all (\<lambda>a. \<exists>l. agent_line repr a = Inr l) ags"
    by (induction ags) (simp_all add: AgentProfile_line)
  from mapM_all[OF this] obtain ls where "mapM (agent_line repr) ags = Inr ls" ..
  with c show ?thesis
    by (simp add: agents_desc_def getitem_JObj iterate_def)
qed

lemma recruiting_stage_backend:
  assumes "last_context s = Inr ctx"
    and "call_backend env Council (recruit_inputs (py_repr env) ctx image_part) = Inr council"
  shows "recruiting_stage env w image_part s =
     (case show_council council of
        Inl e \<Rightarrow> (s\<lparr>agents := council\<rparr>,
                  [Request Council (recruit_inputs (py_repr env) ctx image_part)], Crashed e)
      | Inr u \<Rightarrow>
          (if pressed w = Some StartSimulation
           then (s\<lparr>agents := council, stage := SIMULATING\<rparr>,
                 [Request Council (recruit_inputs (py_repr env) ctx image_part)], Rerun)
           else (s\<lparr>agents := council\<rparr>,
                 [Request Council (recruit_inputs (py_repr env) ctx image_part)], Completed)))"
  using assms
  by (simp add: recruiting_stage_def recruit_agents_def Let_def raised_def split: sum.splits)

text \<open>
  Claim C2, amended.  The council the backend call returns is stored as it is, never
  truncated, padded or defaulted, and nothing validates it.  When it lists more than
  three agents, or an agent without one of the fields \<^verbatim>\<open>avatar\<close>, \<^verbatim>\<open>name\<close>, \<^verbatim>\<open>role\<close>,
  \<^verbatim>\<open>stance\<close>, showing it raises, the run ends in that exception and the stage stays
  \<^verbatim>\<open>RECRUITING\<close>.  A council of at most three complete agents is accepted: the stage
  becomes \<^verbatim>\<open>SIMULATING\<close> when START SIMULATION is pressed.
\<close>

theorem council_accepted_as_returned:
  assumes "key_present w" "sidebar_image w = Inr image_part" "pressed w \<noteq> Some ResetSystem"
    and "state = Some s" "stage s = RECRUITING" "last_context s = Inr ctx"
    and "call_backend env Council (recruit_inputs (py_repr env) ctx image_part) = Inr council"
    and "council = JObj d" "map_of d ''agents'' = Some (JList ags)"
  shows "\<exists>s'. final (run_script env w state) = Some s'
      \<and> agents s' = council \<and> history s' = history s \<and> simulation s' = simulation s
      \<and> (if length ags \<le> 3 \<and> list_all card_fields ags
         then stage s' = (if pressed w = Some StartSimulation then SIMULATING else RECRUITING)
              \<and> ending (run_script env w state)
                  = (if pressed w = Some StartSimulation then Rerun else Completed)
         else stage s' = RECRUITING \<and> (\<exists>e. ending (run_script env w state) = Crashed e))"
proof -
  note run = run_script_stage[OF assms(1,2,3), of env state]
  note rec = recruiting_stage_backend[OF assms(6,7), of w]
  from assms(4,5) have st: "run_stage env w image_part (current state)
      = recruiting_stage env w image_part s"
    by (simp add: run_stage_def current_def)
  show ?thesis
  proof (cases "length ags \<le> 3 \<and> list_all card_fields ags")
    case True
    with show_council_accepts[OF assms(9)] assms(8) have "show_council council = Inr ()"
      by simp
    with True assms(5) show ?thesis
      unfolding run st rec by simp
  next
    case False
    with show_council_accepts[OF assms(9)] assms(8) have "show_council council \<noteq> Inr ()"
      by simp
    then obtain e where "show_council council = Inl e"
      by (cases "show_council council") auto
    with False assms(5) show ?thesis
      unfolding run st rec by simp
  qed
qed

lemma scenario_card_ScenarioNode:
  assumes "ScenarioNode sc"
  shows "scenario_card r sc = Inr ()"
proof -
  from assms obtain d where sc: "sc = JObj d"
    by (auto simp: ScenarioNode_def split: json.splits)
  from assms obtain t de th rl rt p im dc st where
    "map_of d ''title'' = Some (JStr t)" "map_of d ''description'' = Some (JStr de)"
    "map_of d ''time_horizon'' = Some (JStr th)" "map_of d ''risk_level'' = Some (JStr rl)"
    "map_of d ''reasoning_trace'' = Some (JStr rt)"
    "map_of d ''probability'' = Some (JInt p)" "map_of d ''impact_score'' = Some (JInt im)"
    "map_of d ''data_confidence'' = Some (JInt dc)"
    "map_of d ''assumption_stability'' = Some (JInt st)"
    unfolding sc ScenarioNode_def
    by (auto dest!: str_field_getitem int_field_getitem)
  then show ?thesis
    unfolding sc
    by (simp add: scenario_card_def getitem_JObj contains_def)
qed

lemma scenario_cards_select:
  "list_all ScenarioNode xs \<Longrightarrow> i < length xs \<Longrightarrow>
   scenario_cards r (Some (ExploreThisPath (k + i))) k xs = Inr (Some (xs ! i))"
proof (induction xs arbitrary: i k)
  case Nil
  then show ?case by simp
next
  case (Cons x xs)
  then have card: "scenario_card r x = Inr ()"
    by (simp add: scenario_card_ScenarioNode)
  show ?case
  proof (cases i)
    case 0
    with card show ?thesis by simp
  next
    case (Suc j)
    with Cons.prems have "list_all ScenarioNode xs" "j < length xs" by simp_all
    from Cons.IH[OF this, of "Suc k"] Suc card show ?thesis by simp
  qed
qed

lemma scenario_cards_no_button:
  "(\<And>i. btn \<noteq> Some (ExploreThisPath i)) \<Longrightarrow> scenario_cards r btn k xs = Inr res \<Longrightarrow> res = None"
proof (induction xs arbitrary: k)
  case Nil
  then show ?case by simp
next
  case (Cons x xs)
  from Cons.prems(2) obtain u where "scenario_card r x = Inr u"
    by (cases "scenario_card r x") simp_all
  with Cons.prems have "scenario_cards r btn (Suc k) xs = Inr res" by simp
  with Cons.IH[OF Cons.prems(1)] show ?case by blast
qed

lemma scenario_columns_shape:
  assumes "SimulationOutput_shape sim" "scenarios_of sim \<noteq> []"
  shows "scenario_columns sim = Inr (scenarios_of sim)"
proof -
  from SimulationOutput_shapeD[OF assms(1)] obtain d where
    "sim = JObj d" "map_of d ''scenarios'' = Some (JList (scenarios_of sim))"
    by blast
  with assms(2) show ?thesis
    by (simp add: scenario_columns_def get_def len_def iterate_def)
qed

lemma alert_banner_dict: "\<exists>b. alert_banner repr (JObj d) c = Inr b"
  by (simp add: alert_banner_def get_def split: option.splits)

lemma simulating_view_select:
  fixes fx :: "'img effect list"
  assumes "list_all HistoryEntry (history s)" "SimulationOutput_shape (simulation s)"
    and "i < length (scenarios_of (simulation s))" "pressed w = Some (ExploreThisPath i)"
  shows "\<exists>fx'. simulating_view env w c s fx =
           (s\<lparr>history := history s @ [scenarios_of (simulation s) ! i], simulation := JNull,
              agents := JNull, stage := RECRUITING\<rparr>, fx', Rerun)"
proof -
  from SimulationOutput_shapeD[OF assms(2)] obtain d syn where
    d: "simulation s = JObj d" "list_all ScenarioNode (scenarios_of (simulation s))"
    "map_of d ''synthesis'' = Some (JStr syn)"
    by blast
  from draw_tree_simulation[OF HistoryEntry_titles[OF assms(1)] assms(2), of "py_repr env"]
  obtain dot where dot: "draw_advanced_tree (py_repr env) (history s) (simulation s) = Inr dot"
    by blast
  from alert_banner_dict[of "py_repr env" d c] d(1)
  obtain b :: "'img effect list" where b: "alert_banner (py_repr env) (simulation s) c = Inr b"
    by auto
  from d(1,3) have syn: "getitem (simulation s) ''synthesis'' = Inr (JStr syn)"
    by (simp add: getitem_def)
  from assms(3) have ne: "scenarios_of (simulation s) \<noteq> []" by auto
  from scenario_cards_select[OF d(2) assms(3), of "show_reasoning w" 0] assms(4)
  have cards: "scenario_cards (show_reasoning w) (pressed w) 0 (scenarios_of (simulation s))
      = Inr (Some (scenarios_of (simulation s) ! i))"
    by simp
  note cols = scenario_columns_shape[OF assms(2) ne]
  have "simulating_view env w c s fx =
           (s\<lparr>history := history s @ [scenarios_of (simulation s) ! i], simulation := JNull,
              agents := JNull, stage := RECRUITING\<rparr>, fx @ [GraphvizChart dot] @ b, Rerun)"
    by (simp add: simulating_view_def dot syn b cols cards Let_def)
  then show ?thesis ..
qed

lemma simulating_view_keeps:
  fixes fx :: "'img effect list"
  assumes "\<And>i. pressed w \<noteq> Some (ExploreThisPath i)"
  shows "\<exists>fx' t. simulating_view env w c s fx = (s, fx @ fx', t)"
proof (cases "draw_advanced_tree (py_repr env) (history s) (simulation s)")
  case (Inl e)
  then have "simulating_view env w c s fx = (s, fx @ [], Crashed e)"
    by (simp add: simulating_view_def)
  then show ?thesis by blast
next
  case dot: (Inr dot)
  show ?thesis
  proof (cases "bind (getitem (simulation s) ''synthesis'')
                  (\<lambda>_. alert_banner (py_repr env) (simulation s) c) :: exn + 'img effect list")
    case (Inl e)
    with dot have "simulating_view env w c s fx = (s, fx @ [GraphvizChart dot], Crashed e)"
      by (simp add: simulating_view_def)
    then show ?thesis by blast
  next
    case banner: (Inr banner)
    show ?thesis
    proof (cases "bind (scenario_columns (simulation s))
                    (scenario_cards (show_reasoning w) (pressed w) 0)")
      case (Inl e)
      with dot banner
      have "simulating_view env w c s fx = (s, fx @ ([GraphvizChart dot] @ banner), Crashed e)"
        by (simp add: simulating_view_def Let_def)
      then show ?thesis by blast
    next
      case (Inr res)
      then obtain xs where
        "scenario_cards (show_reasoning w) (pressed w) 0 xs = Inr res"
        by (cases "scenario_columns (simulation s)") simp_all
      from scenario_cards_no_button[OF assms this] have none: "res = None" .
      show ?thesis
      proof (cases "generate_markdown_report env (history s)")
        case (Inl e)
        with dot banner Inr none
        have "simulating_view env w c s fx = (s, fx @ ([GraphvizChart dot] @ banner), Crashed e)"
          by (simp add: simulating_view_def Let_def)
        then show ?thesis by blast
      next
        case report: (Inr report_md)
        with dot banner Inr none
        have "simulating_view env w c s fx =
                (s, fx @ ([GraphvizChart dot] @ banner @ [DownloadButton report_md]), Completed)"
          by (simp add: simulating_view_def Let_def)
        then show ?thesis by blast
      qed
    qed
  qed
qed

lemma simulating_view_no_simulation:
  fixes fx :: "'img effect list"
  assumes "simulation s = JNull"
  shows "\<exists>fx' e. simulating_view env w c s fx = (s, fx @ fx', Crashed e)"
proof (cases "draw_advanced_tree (py_repr env) (history s) (simulation s)")
  case (Inl e)
  then have "simulating_view env w c s fx = (s, fx @ [], Crashed e)"
    by (simp add: simulating_view_def)
  then show ?thesis by blast
next
  case (Inr dot)
  with assms have "simulating_view env w c s fx = (s, fx @ [GraphvizChart dot], Crashed TypeError)"
    by (simp add: simulating_view_def getitem_def)
  then show ?thesis by blast
qed

lemma run_simulation_readable:
  assumes "agents_desc (py_repr env) council = Inr desc"
  shows "run_simulation env ctx council image_part chaos =
     (case call_backend env SimulationOutput
             (simulation_inputs (py_repr env) ctx desc image_part chaos) of
        Inl m \<Rightarrow>
          ([Request SimulationOutput (simulation_inputs (py_repr env) ctx desc image_part chaos),
            StError (''Simulation Error: '' @ m)], Inr JNull)
      | Inr v \<Rightarrow>
          ([Request SimulationOutput (simulation_inputs (py_repr env) ctx desc image_part chaos)],
           Inr v))"
  using assms by (simp add: run_simulation_def Let_def)

lemma simulating_stage_call:
  assumes "last_context s = Inr ctx" "agents_desc (py_repr env) (agents s) = Inr desc"
    and "\<not> truthy (simulation s) \<or> pressed w = Some InjectChaos"
  shows "simulating_stage env w image_part s =
     (case call_backend env SimulationOutput
             (simulation_inputs (py_repr env) ctx desc image_part (pressed w = Some InjectChaos)) of
        Inl m \<Rightarrow>
          simulating_view env w (pressed w = Some InjectChaos) (s\<lparr>simulation := JNull\<rparr>)
            [Request SimulationOutput
               (simulation_inputs (py_repr env) ctx desc image_part (pressed w = Some InjectChaos)),
             StError (''Simulation Error: '' @ m)]
      | Inr v \<Rightarrow>
          simulating_view env w (pressed w = Some InjectChaos) (s\<lparr>simulation := v\<rparr>)
            [Request SimulationOutput
               (simulation_inputs (py_repr env) ctx desc image_part (pressed w = Some InjectChaos))])"
proof (cases "pressed w = Some InjectChaos")
  case True
  with assms(1,2) show ?thesis
    by (simp add: simulating_stage_def Let_def truthy_def run_simulation_readable
        split: sum.splits)
next
  case False
  with assms show ?thesis
    by (simp add: simulating_stage_def Let_def run_simulation_readable split: sum.splits)
qed

lemma chaos_in_prompt:
  "sublist (chaos_prompt True) (simulation_prompt repr ctx desc True)"
proof -
  have "simulation_prompt repr ctx desc True =
      (''\<newline>    You are TIMEFOLD, an Advanced Strategic Foresight Engine.''
       @ ''\<newline>    ACTIVE COUNCIL: '' @ desc
       @ ''\<newline>    TASK: Simulate a debate, generate 3 divergent future scenarios. Include reasoning traces and confidence metrics.''
       @ ''\<newline>    '')
      @ chaos_prompt True
      @ (''\<newline>    CURRENT STATE: '' @ py_str repr ctx @ ''\<newline>    '')"
    by (simp add: simulation_prompt_def)
  then show ?thesis
    by (simp only: sublist_appendI)
qed

text \<open>
  Claim C3.  In the stage \<^verbatim>\<open>SIMULATING\<close>, with a history of well-formed entries and a
  current simulation of the declared shape, pressing the button of scenario \<open>i\<close> ends the
  run at \<^verbatim>\<open>st.rerun()\<close> with exactly that scenario appended to the history, no current
  simulation, no council, and the stage \<^verbatim>\<open>RECRUITING\<close>; the session holds nothing else.
\<close>

theorem explore_path_appends_scenario:
  assumes "key_present w" "sidebar_image w = Inr image_part"
    and "pressed w = Some (ExploreThisPath i)"
    and "state = Some s" "stage s = SIMULATING"
    and "history s \<noteq> []" "list_all HistoryEntry (history s)"
    and "SimulationOutput_shape (simulation s)"
    and "i < length (scenarios_of (simulation s))"
  shows "final (run_script env w state) =
           Some (s\<lparr>history := history s @ [scenarios_of (simulation s) ! i],
                   simulation := JNull, agents := JNull, stage := RECRUITING\<rparr>)
       \<and> ending (run_script env w state) = Rerun"
proof -
  from assms(3) have nr: "pressed w \<noteq> Some ResetSystem" by simp
  note run = run_script_stage[OF assms(1,2) nr, of env state]
  from last_context_entries[OF assms(6,7)] obtain ctx where ctx: "last_context s = Inr ctx" ..
  from SimulationOutput_shapeD[OF assms(8)] have "truthy (simulation s)"
    by (auto simp: truthy_def)
  with ctx assms(3) have "simulating_stage env w image_part s = simulating_view env w False s []"
    by (simp add: simulating_stage_def Let_def)
  with assms(4,5) have st: "run_stage env w image_part (current state)
      = simulating_view env w False s []"
    by (simp add: run_stage_def current_def)
  from simulating_view_select[OF assms(7,8,9,3), of env False "[]"]
  obtain fx' where "simulating_view env w False s [] =
           (s\<lparr>history := history s @ [scenarios_of (simulation s) ! i], simulation := JNull,
              agents := JNull, stage := RECRUITING\<rparr>, fx', Rerun)" ..
  then show ?thesis
    unfolding run st by simp
qed

text \<open>
  Claim C4.  In the stage \<^verbatim>\<open>SIMULATING\<close> with a council that can be described, pressing
  Inject Chaos discards the current simulation (the run is the same whatever simulation
  the session held), leaves stage, history and council as they are, and sends as the
  first effect of the run a request whose prompt contains the black-swan instruction;
  the session then holds what that call returned (\<^verbatim>\<open>None\<close> when it raised).
\<close>

theorem chaos_injection_recomputes:
  assumes "key_present w" "sidebar_image w = Inr image_part"
    and "pressed w = Some InjectChaos"
    and "state = Some s" "stage s = SIMULATING"
    and "last_context s = Inr ctx" "agents_desc (py_repr env) (agents s) = Inr desc"
  shows "\<exists>s' rest. final (run_script env w state) = Some s'
      \<and> stage s' = SIMULATING \<and> history s' = history s \<and> agents s' = agents s
      \<and> simulation s' =
          (case call_backend env SimulationOutput
                  (simulation_inputs (py_repr env) ctx desc image_part True) of
             Inl m \<Rightarrow> JNull | Inr v \<Rightarrow> v)
      \<and> effects (run_script env w state) =
          Request SimulationOutput
            (Text (simulation_prompt (py_repr env) ctx desc True)
             # (case image_part of None \<Rightarrow> []
                | Some img \<Rightarrow> [Image img, Text ''Incorporate visual insights.'']))
          # rest
      \<and> sublist (chaos_prompt True) (simulation_prompt (py_repr env) ctx desc True)
      \<and> chaos_prompt True = warning_sign @ '' INJECT A BLACK SWAN EVENT: Introduce a low-probability, high-impact disruption into the scenarios.''
      \<and> run_script env w (Some (s\<lparr>simulation := other\<rparr>)) = run_script env w state"
proof -
  from assms(3) have nr: "pressed w \<noteq> Some ResetSystem" by simp
  from assms(3) have nb: "\<And>i. pressed w \<noteq> Some (ExploreThisPath i)" by simp
  note run = run_script_stage[OF assms(1,2) nr, of env]
  let ?inputs = "simulation_inputs (py_repr env) ctx desc image_part True"
  have call: "simulating_stage env w image_part t =
     (case call_backend env SimulationOutput ?inputs of
        Inl m \<Rightarrow> simulating_view env w True (s\<lparr>simulation := JNull\<rparr>)
                   [Request SimulationOutput ?inputs, StError (''Simulation Error: '' @ m)]
      | Inr v \<Rightarrow> simulating_view env w True (s\<lparr>simulation := v\<rparr>)
                   [Request SimulationOutput ?inputs])"
    if "t = s\<lparr>simulation := x\<rparr>" for t x
  proof -
    from that assms(6) have c: "last_context t = Inr ctx"
      by (auto simp: last_context_def split: if_splits)
    from that assms(7) have d: "agents_desc (py_repr env) (agents t) = Inr desc" by simp
    from that have e: "t\<lparr>simulation := y\<rparr> = s\<lparr>simulation := y\<rparr>" for y by simp
    from simulating_stage_call[OF c d disjI2[OF assms(3)], of image_part] assms(3)
    show ?thesis by (simp add: e split: sum.splits)
  qed
  have same: "run_script env w (Some (s\<lparr>simulation := other\<rparr>)) = run_script env w state"
    unfolding run using assms(4,5) call[of "s\<lparr>simulation := other\<rparr>" other]
      call[of s "simulation s"]
    by (simp add: run_stage_def current_def)
  have inputs: "?inputs = Text (simulation_prompt (py_repr env) ctx desc True)
             # (case image_part of None \<Rightarrow> []
                | Some img \<Rightarrow> [Image img, Text ''Incorporate visual insights.''])"
    by (simp add: simulation_inputs_def)
  have cp: "chaos_prompt True = warning_sign @ '' INJECT A BLACK SWAN EVENT: Introduce a low-probability, high-impact disruption into the scenarios.''"
    by (simp add: chaos_prompt_def)
  from assms(4,5) have st: "run_stage env w image_part (current state)
      = simulating_stage env w image_part s"
    by (simp add: run_stage_def current_def)
  show ?thesis
  proof (cases "call_backend env SimulationOutput ?inputs")
    case (Inl m)
    from simulating_view_keeps[OF nb, of env True "s\<lparr>simulation := JNull\<rparr>"
        "[Request SimulationOutput ?inputs, StError (''Simulation Error: '' @ m)]"]
    obtain fx' t where "simulating_view env w True (s\<lparr>simulation := JNull\<rparr>)
        [Request SimulationOutput ?inputs, StError (''Simulation Error: '' @ m)]
      = (s\<lparr>simulation := JNull\<rparr>,
         [Request SimulationOutput ?inputs, StError (''Simulation Error: '' @ m)] @ fx', t)"
      by blast
    with Inl have r: "run_script env w state =
        \<lparr>final = Some (s\<lparr>simulation := JNull\<rparr>),
         effects = [Request SimulationOutput ?inputs, StError (''Simulation Error: '' @ m)] @ fx',
         ending = t\<rparr>"
      unfolding run st call[of s "simulation s", simplified] by simp
    show ?thesis
      using assms(5) Inl chaos_in_prompt[of "py_repr env" ctx desc] cp same
      unfolding r inputs
      by (intro exI[of _ "s\<lparr>simulation := JNull\<rparr>"]
          exI[of _ "StError (''Simulation Error: '' @ m) # fx'"]) simp
  next
    case (Inr v)
    from simulating_view_keeps[OF nb, of env True "s\<lparr>simulation := v\<rparr>"
        "[Request SimulationOutput ?inputs]"]
    obtain fx' t where "simulating_view env w True (s\<lparr>simulation := v\<rparr>)
        [Request SimulationOutput ?inputs]
      = (s\<lparr>simulation := v\<rparr>, [Request SimulationOutput ?inputs] @ fx', t)"
      by blast
    with Inr have r: "run_script env w state =
        \<lparr>final = Some (s\<lparr>simulation := v\<rparr>),
         effects = [Request SimulationOutput ?inputs] @ fx', ending = t\<rparr>"
      unfolding run st call[of s "simulation s", simplified] by simp
    show ?thesis
      using assms(5) Inr chaos_in_prompt[of "py_repr env" ctx desc] cp same
      unfolding r inputs
      by (intro exI[of _ "s\<lparr>simulation := v\<rparr>"] exI[of _ fx']) simp
  qed
qed

lemma errors_shown_Cons [simp]:
  "errors_shown (Request sch inputs # fx) = errors_shown fx"
  "errors_shown (StError m # fx) = m # errors_shown fx"
  by (simp_all add: errors_shown_def)

lemma call_backend_raises:
  "call_backend env sch inputs = Inl m \<longleftrightarrow>
     generate_content env sch inputs = Inl m
     \<or> (\<exists>text. generate_content env sch inputs = Inr text \<and> json_loads env text = Inl m)"
  by (cases "generate_content env sch inputs") (simp_all add: call_backend_def)

text \<open>
  Claim C1, amended.  When the backend call or the parse of its text raises during a
  simulation call, \<^verbatim>\<open>run_simulation\<close> shows the error and returns \<^verbatim>\<open>None\<close>; after the run
  the session is in the stage \<^verbatim>\<open>SIMULATING\<close> with history and council as before and no
  current simulation, and the next run sends the request again.  (A response that parses
  is returned as it is, whatever its shape: see the counterexample below.)
\<close>

theorem simulation_failure_caught:
  assumes "key_present w" "sidebar_image w = Inr image_part"
    and "pressed w \<noteq> Some ResetSystem"
    and "state = Some s" "stage s = SIMULATING"
    and "last_context s = Inr ctx" "agents_desc (py_repr env) (agents s) = Inr desc"
    and "\<not> truthy (simulation s) \<or> pressed w = Some InjectChaos"
    and "inputs = simulation_inputs (py_repr env) ctx desc image_part (pressed w = Some InjectChaos)"
    and "generate_content env SimulationOutput inputs = Inl m
         \<or> (generate_content env SimulationOutput inputs = Inr text \<and> json_loads env text = Inl m)"
  shows "run_simulation env ctx (agents s) image_part (pressed w = Some InjectChaos) =
           ([Request SimulationOutput inputs, StError (''Simulation Error: '' @ m)], Inr JNull)
       \<and> final (run_script env w state) = Some (s\<lparr>simulation := JNull\<rparr>)
       \<and> (\<exists>rest. effects (run_script env w state) =
              Request SimulationOutput inputs # StError (''Simulation Error: '' @ m) # rest)
       \<and> (\<exists>rest. effects (run_script env (w\<lparr>pressed := None\<rparr>) (Some (s\<lparr>simulation := JNull\<rparr>))) =
              Request SimulationOutput (simulation_inputs (py_repr env) ctx desc image_part False)
              # rest)"
proof -
  from assms(10) have fail: "call_backend env SimulationOutput inputs = Inl m"
    unfolding call_backend_raises by blast
  have sim: "run_simulation env ctx (agents s) image_part (pressed w = Some InjectChaos) =
           ([Request SimulationOutput inputs, StError (''Simulation Error: '' @ m)], Inr JNull)"
    using fail unfolding run_simulation_readable[OF assms(7)] assms(9)[symmetric] by simp
  note run = run_script_stage[OF assms(1,2,3), of env state]
  from assms(4,5) have st: "run_stage env w image_part (current state)
      = simulating_stage env w image_part s"
    by (simp add: run_stage_def current_def)
  from simulating_view_no_simulation[of "s\<lparr>simulation := JNull\<rparr>" env w
      "pressed w = Some InjectChaos"
      "[Request SimulationOutput inputs, StError (''Simulation Error: '' @ m)]"]
  obtain fx' e where view: "simulating_view env w (pressed w = Some InjectChaos)
      (s\<lparr>simulation := JNull\<rparr>)
      [Request SimulationOutput inputs, StError (''Simulation Error: '' @ m)]
    = (s\<lparr>simulation := JNull\<rparr>,
       [Request SimulationOutput inputs, StError (''Simulation Error: '' @ m)] @ fx', Crashed e)"
    by auto
  have r: "run_script env w state =
      \<lparr>final = Some (s\<lparr>simulation := JNull\<rparr>),
       effects = [Request SimulationOutput inputs, StError (''Simulation Error: '' @ m)] @ fx',
       ending = Crashed e\<rparr>"
    unfolding run st simulating_stage_call[OF assms(6,7,8)] assms(9)[symmetric]
    using fail view by simp
  \<comment> \<open>the next run, with no button pressed\<close>
  let ?w = "w\<lparr>pressed := None\<rparr>"
  let ?s = "s\<lparr>simulation := JNull\<rparr>"
  let ?inputs = "simulation_inputs (py_repr env) ctx desc image_part False"
  from assms(1) have k: "key_present ?w" by (simp add: key_present_def)
  from assms(2) have i: "sidebar_image ?w = Inr image_part" by (simp add: sidebar_image_def)
  have nr: "pressed ?w \<noteq> Some ResetSystem" by simp
  have nb: "\<And>i. pressed ?w \<noteq> Some (ExploreThisPath i)" by simp
  from assms(6) have c: "last_context ?s = Inr ctx"
    by (auto simp: last_context_def split: if_splits)
  from assms(7) have d: "agents_desc (py_repr env) (agents ?s) = Inr desc" by simp
  have f: "\<not> truthy (simulation ?s) \<or> pressed ?w = Some InjectChaos"
    by (simp add: truthy_def)
  from assms(5) have st': "run_stage env ?w image_part (current (Some ?s))
      = simulating_stage env ?w image_part ?s"
    by (simp add: run_stage_def current_def)
  have "\<exists>fx t s'. simulating_stage env ?w image_part ?s = (s', Request SimulationOutput ?inputs # fx, t)"
  proof (cases "call_backend env SimulationOutput ?inputs")
    case (Inl m')
    from simulating_view_keeps[OF nb, of env False ?s
        "[Request SimulationOutput ?inputs, StError (''Simulation Error: '' @ m')]"]
    show ?thesis
      unfolding simulating_stage_call[OF c d f] using Inl by auto
  next
    case (Inr v)
    from simulating_view_keeps[OF nb, of env False "s\<lparr>simulation := v\<rparr>"
        "[Request SimulationOutput ?inputs]"]
    show ?thesis
      unfolding simulating_stage_call[OF c d f] using Inr by auto
  qed
  then have again: "\<exists>rest. effects (run_script env ?w (Some ?s)) =
              Request SimulationOutput ?inputs # rest"
    unfolding run_script_stage[OF k i nr] st' by auto
  from sim r again show ?thesis
    by simp
qed

lemma key_present_ex: "key_present (widgets_ex b)"
  by (simp add: key_present_def widgets_ex_def)

lemma sidebar_image_ex: "sidebar_image (widgets_ex b) = Inr None"
  by (simp add: sidebar_image_def widgets_ex_def)

lemma pressed_ex: "pressed (widgets_ex b) = b"
  by (simp add: widgets_ex_def)

lemma last_context_ex: "last_context (session_ex st c v) = Inr (JStr ''AI Ban'')"
  by (simp add: last_context_def session_ex_def start_entry_def getitem_JObj)

lemma council_ex_readable: "\<exists>desc. agents_desc repr (council_ex 3) = Inr desc"
proof -
  have "Council_shape (council_ex 3)" by code_simp
  then show ?thesis by (rule council_readable)
qed

text \<open>
  Claim C1 as stated includes the schema mismatch among the failures that are caught.
  A response that parses to a dictionary without \<^verbatim>\<open>synthesis\<close> is returned by
  \<^verbatim>\<open>run_simulation\<close> with no error shown, and the session stores it.
\<close>

theorem simulation_schema_mismatch_counterexample:
  "\<not> SimulationOutput_shape simulation_mismatch
   \<and> snd (run_simulation (env_ex (Inr simulation_mismatch)) (JStr ''AI Ban'') (council_ex 3)
            None False) = Inr simulation_mismatch
   \<and> errors_shown (fst (run_simulation (env_ex (Inr simulation_mismatch)) (JStr ''AI Ban'')
                          (council_ex 3) None False)) = []
   \<and> final (run_script (env_ex (Inr simulation_mismatch)) (widgets_ex None)
              (Some (session_ex SIMULATING (council_ex 3) JNull)))
       = Some (session_ex SIMULATING (council_ex 3) simulation_mismatch)
   \<and> ending (run_script (env_ex (Inr simulation_mismatch)) (widgets_ex None)
              (Some (session_ex SIMULATING (council_ex 3) JNull)))
       = Crashed (KeyError ''synthesis'')"
  by code_simp

text \<open>
  Claim C2 as stated rejects every council whose agent count is not 3.  A council of two
  agents is returned by \<^verbatim>\<open>recruit_agents\<close>, shown without an error, and the stage proceeds
  with it.
\<close>

theorem two_agent_council_counterexample:
  "length (agents_of (council_ex 2)) = 2
   \<and> snd (recruit_agents (env_ex (Inr (council_ex 2))) (JStr ''AI Ban'') None)
       = Inr (council_ex 2)
   \<and> final (run_script (env_ex (Inr (council_ex 2))) (widgets_ex (Some StartSimulation))
              (Some (session_ex RECRUITING JNull JNull)))
       = Some (session_ex SIMULATING (council_ex 2) JNull)
   \<and> ending (run_script (env_ex (Inr (council_ex 2))) (widgets_ex (Some StartSimulation))
              (Some (session_ex RECRUITING JNull JNull))) = Rerun
   \<and> errors_shown (effects (run_script (env_ex (Inr (council_ex 2)))
              (widgets_ex (Some StartSimulation)) (Some (session_ex RECRUITING JNull JNull)))) = []"
  by code_simp

theorem simulation_failure_caught_witness:
  "stage (session_ex SIMULATING (council_ex 3) JNull) = SIMULATING
   \<and> generate_content env_down SimulationOutput
        (simulation_inputs repr_ex (JStr ''AI Ban'') [] None False) = Inl ''503 unavailable''
   \<and> final (run_script env_down (widgets_ex None)
              (Some (session_ex SIMULATING (council_ex 3) JNull)))
       = Some (session_ex SIMULATING (council_ex 3) JNull)
   \<and> hd (errors_shown (effects (run_script env_down (widgets_ex None)
              (Some (session_ex SIMULATING (council_ex 3) JNull)))))
       = ''Simulation Error: 503 unavailable''"
proof -
  let ?s = "session_ex SIMULATING (council_ex 3) JNull"
  let ?w = "widgets_ex None :: unit widgets"
  have h3: "pressed ?w \<noteq> Some ResetSystem" by (simp add: pressed_ex)
  have h5: "stage ?s = SIMULATING" by (simp add: session_ex_def)
  obtain desc where h7: "agents_desc (py_repr env_down) (agents ?s) = Inr desc"
    using council_ex_readable[of "py_repr env_down"] by (auto simp: session_ex_def)
  have h8: "\<not> truthy (simulation ?s) \<or> pressed ?w = Some InjectChaos"
    by (simp add: session_ex_def truthy_def)
  have g: "generate_content env_down SimulationOutput x = Inl ''503 unavailable''" for x
    by (simp add: env_down_def)
  have h10: "generate_content env_down SimulationOutput
        (simulation_inputs (py_repr env_down) (JStr ''AI Ban'') desc None
           (pressed ?w = Some InjectChaos)) = Inl ''503 unavailable''
      \<or> (generate_content env_down SimulationOutput
        (simulation_inputs (py_repr env_down) (JStr ''AI Ban'') desc None
           (pressed ?w = Some InjectChaos)) = Inr []
         \<and> json_loads env_down [] = Inl ''503 unavailable'')"
    by (simp add: g)
  note t = simulation_failure_caught[OF key_present_ex sidebar_image_ex h3 refl h5
      last_context_ex h7 h8 refl h10]
  from t have f: "final (run_script env_down ?w (Some ?s)) = Some (?s\<lparr>simulation := JNull\<rparr>)"
    by (rule conjunct2[THEN conjunct1])
  from t obtain rest where "effects (run_script env_down ?w (Some ?s)) =
      Request SimulationOutput (simulation_inputs (py_repr env_down) (JStr ''AI Ban'') desc None
           (pressed ?w = Some InjectChaos))
      # StError (''Simulation Error: '' @ ''503 unavailable'') # rest"
    by blast
  then have e: "hd (errors_shown (effects (run_script env_down ?w (Some ?s))))
       = ''Simulation Error: 503 unavailable''"
    by simp
  have u: "?s\<lparr>simulation := JNull\<rparr> = ?s" by (simp add: session_ex_def)
  from h5 g f[unfolded u] e show ?thesis
    by (intro conjI)
qed

theorem council_accepted_as_returned_witness:
  "stage (session_ex RECRUITING JNull JNull) = RECRUITING
   \<and> call_backend (env_ex (Inr (council_ex 4))) Council
        (recruit_inputs repr_ex (JStr ''AI Ban'') None) = Inr (council_ex 4)
   \<and> length (agents_of (council_ex 4)) = 4
   \<and> (\<exists>s'. final (run_script (env_ex (Inr (council_ex 4))) (widgets_ex (Some StartSimulation))
                  (Some (session_ex RECRUITING JNull JNull))) = Some s'
          \<and> agents s' = council_ex 4 \<and> stage s' = RECRUITING)
   \<and> (\<exists>e. ending (run_script (env_ex (Inr (council_ex 4))) (widgets_ex (Some StartSimulation))
                  (Some (session_ex RECRUITING JNull JNull))) = Crashed e)"
proof -
  let ?env = "env_ex (Inr (council_ex 4))"
  let ?s = "session_ex RECRUITING JNull JNull"
  let ?w = "widgets_ex (Some StartSimulation) :: unit widgets"
  let ?ags = "map agent_ex (take 4 [''Vega'', ''Orion'', ''Lyra'', ''Draco''])"
  let ?d = "[(''agents'', JList ?ags)]"
  have h3: "pressed ?w \<noteq> Some ResetSystem" by (simp add: pressed_ex)
  have h5: "stage ?s = RECRUITING" by (simp add: session_ex_def)
  have h7: "call_backend ?env Council (recruit_inputs (py_repr ?env) (JStr ''AI Ban'') None)
      = Inr (council_ex 4)"
    by (simp add: call_backend_def env_ex_def)
  then have h7': "call_backend ?env Council (recruit_inputs repr_ex (JStr ''AI Ban'') None)
      = Inr (council_ex 4)"
    by (simp add: env_ex_def)
  have h8: "council_ex 4 = JObj ?d" by (simp add: council_ex_def)
  have h9: "map_of ?d ''agents'' = Some (JList ?ags)" by simp
  have n: "\<not> (length ?ags \<le> 3 \<and> list_all card_fields ?ags)" by simp
  have l: "length (agents_of (council_ex 4)) = 4" by code_simp
  from council_accepted_as_returned[OF key_present_ex sidebar_image_ex h3 refl h5
      last_context_ex h7 h8 h9]
  obtain s' where s': "final (run_script ?env ?w (Some ?s)) = Some s'
      \<and> agents s' = council_ex 4 \<and> history s' = history ?s \<and> simulation s' = simulation ?s
      \<and> (if length ?ags \<le> 3 \<and> list_all card_fields ?ags
         then stage s' = (if pressed ?w = Some StartSimulation then SIMULATING else RECRUITING)
              \<and> ending (run_script ?env ?w (Some ?s))
                  = (if pressed ?w = Some StartSimulation then Rerun else Completed)
         else stage s' = RECRUITING \<and> (\<exists>e. ending (run_script ?env ?w (Some ?s)) = Crashed e))" ..
  note a = s'[THEN conjunct1]
  note b = s'[THEN conjunct2, THEN conjunct1]
  note c = s'[THEN conjunct2, THEN conjunct2, THEN conjunct2, THEN conjunct2, unfolded if_not_P[OF n]]
  from a b c[THEN conjunct1]
  have x: "\<exists>s'. final (run_script ?env ?w (Some ?s)) = Some s'
          \<and> agents s' = council_ex 4 \<and> stage s' = RECRUITING"
    by (intro exI[of _ s'] conjI)
  from h5 h7' l x c[THEN conjunct2] show ?thesis
    by (intro conjI)
qed

theorem explore_path_appends_scenario_witness:
  "stage (session_ex SIMULATING (council_ex 3) simulation_ex) = SIMULATING
   \<and> list_all HistoryEntry (history (session_ex SIMULATING (council_ex 3) simulation_ex))
   \<and> SimulationOutput_shape simulation_ex
   \<and> final (run_script env_down (widgets_ex (Some (ExploreThisPath 1)))
              (Some (session_ex SIMULATING (council_ex 3) simulation_ex)))
       = Some \<lparr>stage = RECRUITING,
               history = [start_entry ''AI Ban'', scenario_ex ''sc_2'' ''Clampdown'' ''High''],
               agents = JNull, simulation = JNull\<rparr>
   \<and> ending (run_script env_down (widgets_ex (Some (ExploreThisPath 1)))
              (Some (session_ex SIMULATING (council_ex 3) simulation_ex))) = Rerun"
proof -
  let ?s = "session_ex SIMULATING (council_ex 3) simulation_ex"
  let ?w = "widgets_ex (Some (ExploreThisPath 1)) :: unit widgets"
  have h3: "pressed ?w = Some (ExploreThisPath 1)" by (simp add: pressed_ex)
  have h5: "stage ?s = SIMULATING" by (simp add: session_ex_def)
  have h6: "history ?s \<noteq> []" by (simp add: session_ex_def)
  have h7: "list_all HistoryEntry (history ?s)" by code_simp
  have sh: "SimulationOutput_shape simulation_ex" by code_simp
  then have h8: "SimulationOutput_shape (simulation ?s)" by (simp add: session_ex_def)
  have h9: "1 < length (scenarios_of (simulation ?s))" by code_simp
  have v: "?s\<lparr>history := history ?s @ [scenarios_of (simulation ?s) ! 1],
                   simulation := JNull, agents := JNull, stage := RECRUITING\<rparr>
      = \<lparr>stage = RECRUITING,
         history = [start_entry ''AI Ban'', scenario_ex ''sc_2'' ''Clampdown'' ''High''],
         agents = JNull, simulation = JNull\<rparr>"
    by (simp add: session_ex_def scenarios_of_def simulation_ex_def)
  note t = explore_path_appends_scenario[OF key_present_ex sidebar_image_ex h3 refl h5 h6 h7
      h8 h9, of env_down, unfolded v]
  from h5 h7 sh t[THEN conjunct1] t[THEN conjunct2] show ?thesis
    by (intro conjI)
qed

theorem chaos_injection_recomputes_witness:
  "stage (session_ex SIMULATING (council_ex 3) simulation_mismatch) = SIMULATING
   \<and> (\<exists>s'. final (run_script (env_ex (Inr simulation_ex)) (widgets_ex (Some InjectChaos))
                  (Some (session_ex SIMULATING (council_ex 3) simulation_mismatch))) = Some s'
          \<and> stage s' = SIMULATING \<and> simulation s' = simulation_ex)
   \<and> run_script (env_ex (Inr simulation_ex)) (widgets_ex (Some InjectChaos))
        (Some (session_ex SIMULATING (council_ex 3) simulation_ex))
       = run_script (env_ex (Inr simulation_ex)) (widgets_ex (Some InjectChaos))
        (Some (session_ex SIMULATING (council_ex 3) simulation_mismatch))"
proof -
  let ?env = "env_ex (Inr simulation_ex)"
  let ?s = "session_ex SIMULATING (council_ex 3) simulation_mismatch"
  let ?w = "widgets_ex (Some InjectChaos) :: unit widgets"
  have h3: "pressed ?w = Some InjectChaos" by (simp add: pressed_ex)
  have h5: "stage ?s = SIMULATING" by (simp add: session_ex_def)
  obtain desc where h7: "agents_desc (py_repr ?env) (agents ?s) = Inr desc"
    using council_ex_readable[of "py_repr ?env"] by (auto simp: session_ex_def)
  have cb: "call_backend ?env SimulationOutput x = Inr simulation_ex" for x
    by (simp add: call_backend_def env_ex_def)
  have u: "?s\<lparr>simulation := simulation_ex\<rparr> = session_ex SIMULATING (council_ex 3) simulation_ex"
    by (simp add: session_ex_def)
  from chaos_injection_recomputes[OF key_present_ex sidebar_image_ex h3 refl h5
      last_context_ex h7, of simulation_ex]
  obtain s' rest where s': "final (run_script ?env ?w (Some ?s)) = Some s'"
    "stage s' = SIMULATING"
    "simulation s' = (case call_backend ?env SimulationOutput
                  (simulation_inputs (py_repr ?env) (JStr ''AI Ban'') desc None True) of
             Inl m \<Rightarrow> JNull | Inr v \<Rightarrow> v)"
    "run_script ?env ?w (Some (?s\<lparr>simulation := simulation_ex\<rparr>)) = run_script ?env ?w (Some ?s)"
    by blast
  from s'(3) have "simulation s' = simulation_ex" by (simp add: cb)
  with s'(1,2) have x: "\<exists>s'. final (run_script ?env ?w (Some ?s)) = Some s'
          \<and> stage s' = SIMULATING \<and> simulation s' = simulation_ex"
    by (intro exI[of _ s'] conjI)
  from h5 x s'(4)[unfolded u] show ?thesis
    by (intro conjI)
qed

section \<open>An invariant of the session state\<close>

lemma session_ok_fresh: "session_ok repr fresh_session"
  by (simp add: session_ok_def fresh_session_def truthy_def)

lemma HistoryEntry_start: "HistoryEntry (start_entry d)"
  by (simp add: HistoryEntry_def start_entry_def has_field_def)

lemma bind_Inr_iff: "bind r f = Inr y \<longleftrightarrow> (\<exists>x. r = Inr x \<and> f x = Inr y)"
  by (cases r) simp_all

lemma scenario_card_entry:
  assumes "scenario_card r sc = Inr ()"
  shows "HistoryEntry sc"
proof -
  from assms have "has_field sc ''title'' \<and> has_field sc ''description'' \<and> has_field sc ''probability''"
    unfolding scenario_card_def bind_Inr_iff getitem_Inr_has_field[symmetric]
    by (auto split: if_splits)
  then show ?thesis by (simp add: HistoryEntry_def)
qed

lemma scenario_cards_Some:
  "scenario_cards r btn k xs = Inr (Some sc) \<Longrightarrow> scenario_card r sc = Inr ()"
proof (induction xs arbitrary: k)
  case Nil
  then show ?case by simp
next
  case (Cons x xs)
  from Cons.prems obtain u where u: "scenario_card r x = Inr u"
    by (cases "scenario_card r x") simp_all
  show ?case
  proof (cases "btn = Some (ExploreThisPath k)")
    case True
    with Cons.prems u show ?thesis by simp
  next
    case False
    with Cons.prems u have "scenario_cards r btn (Suc k) xs = Inr (Some sc)" by simp
    then show ?thesis by (rule Cons.IH)
  qed
qed

lemma simulating_view_final:
  fixes fx :: "'img effect list"
  shows "fst (simulating_view env w c s fx) = s
       \<or> (\<exists>sc. HistoryEntry sc
            \<and> fst (simulating_view env w c s fx) =
                s\<lparr>history := history s @ [sc], simulation := JNull, agents := JNull,
                  stage := RECRUITING\<rparr>)"
proof (cases "bind (scenario_columns (simulation s))
                (scenario_cards (show_reasoning w) (pressed w) 0)")
  case (Inl e)
  then show ?thesis
    by (simp add: simulating_view_def Let_def split: sum.splits)
next
  case (Inr res)
  show ?thesis
  proof (cases res)
    case None
    with Inr show ?thesis
      by (simp add: simulating_view_def Let_def split: sum.splits)
  next
    case (Some sc)
    with Inr obtain xs where
      "scenario_cards (show_reasoning w) (pressed w) 0 xs = Inr (Some sc)"
      by (auto simp: bind_Inr_iff)
    from scenario_card_entry[OF scenario_cards_Some[OF this]] have "HistoryEntry sc" .
    with Inr Some show ?thesis
      by (auto simp: simulating_view_def Let_def split: sum.splits)
  qed
qed

lemma session_ok_view:
  fixes fx :: "'img effect list"
  assumes "session_ok repr s" "stage s = SIMULATING"
  shows "session_ok repr (fst (simulating_view env w c s fx))"
  using simulating_view_final[of env w c s fx] assms
  by (auto simp: session_ok_def truthy_def)

lemma session_ok_input:
  assumes "session_ok repr s" "stage s = INPUT"
  shows "session_ok repr (fst (input_stage w image_part s))"
  using assms
  by (auto simp: input_stage_def enter_recruiting_def session_ok_def HistoryEntry_start truthy_def
      split: option.splits button.splits)

lemma session_ok_recruiting:
  assumes "session_ok repr s" "stage s = RECRUITING"
  shows "session_ok repr (fst (recruiting_stage env w image_part s))"
  using assms
  by (auto simp: recruiting_stage_def session_ok_def truthy_def Let_def
      split: sum.splits prod.splits)

lemma session_ok_simulating:
  assumes "session_ok (py_repr env) s" "stage s = SIMULATING"
  shows "session_ok (py_repr env) (fst (simulating_stage env w image_part s))"
proof (cases "last_context s")
  case (Inl e)
  with assms show ?thesis by (simp add: simulating_stage_def)
next
  case (Inr ctx)
  let ?chaos = "pressed w = Some InjectChaos"
  let ?s1 = "if ?chaos then s\<lparr>simulation := JNull\<rparr> else s"
  from assms have ok1: "session_ok (py_repr env) ?s1" "stage ?s1 = SIMULATING"
    by (auto simp: session_ok_def truthy_def)
  show ?thesis
  proof (cases "truthy (simulation ?s1)")
    case True
    with Inr session_ok_view[OF ok1, of env w ?chaos "[]"] show ?thesis
      by (simp add: simulating_stage_def Let_def)
  next
    case False
    show ?thesis
    proof (cases "agents_desc (py_repr env) (agents ?s1)")
      case (Inl e)
      with Inr False ok1 show ?thesis
        by (simp add: simulating_stage_def Let_def run_simulation_def)
    next
      case desc: (Inr desc)
      obtain fx v where rs: "run_simulation env ctx (agents ?s1) image_part ?chaos = (fx, Inr v)"
        unfolding run_simulation_readable[OF desc]
        by (cases "call_backend env SimulationOutput
                     (simulation_inputs (py_repr env) ctx desc image_part ?chaos)") auto
      from ok1 desc have "session_ok (py_repr env) (?s1\<lparr>simulation := v\<rparr>)"
        "stage (?s1\<lparr>simulation := v\<rparr>) = SIMULATING"
        by (auto simp: session_ok_def)
      from session_ok_view[OF this, of env w ?chaos fx] Inr False rs show ?thesis
        by (simp add: simulating_stage_def Let_def)
    qed
  qed
qed

text \<open>
  Every run of the script keeps the invariant, and a new session has it; so the sessions
  the theorems above assume (a history of well-formed entries, a describable council
  beside a current simulation) are the sessions the script produces.
\<close>

theorem session_ok_preserved:
  assumes "session_ok (py_repr env) (current state)"
    and "final (run_script env w state) = Some s'"
  shows "session_ok (py_repr env) s'"
proof -
  let ?s = "current state"
  have stage_ok: "session_ok (py_repr env) (fst (run_stage env w image_part ?s))" for image_part
    using session_ok_input[OF assms(1)] session_ok_recruiting[OF assms(1)]
      session_ok_simulating[OF assms(1)]
    by (cases "stage ?s") (simp_all add: run_stage_def)
  from assms(2) have "s' = ?s \<or> (\<exists>image_part. s' = fst (run_stage env w image_part ?s))"
    by (auto simp: run_script_def current_def
        split: if_splits sum.splits prod.splits option.splits) (metis fst_conv)+
  with assms(1) stage_ok show ?thesis by auto
qed

lemma session_ok_simulating_reads:
  assumes "session_ok repr s" "stage s = SIMULATING"
  shows "\<exists>ctx. last_context s = Inr ctx"
    and "truthy (simulation s) \<Longrightarrow> \<exists>desc. agents_desc repr (agents s) = Inr desc"
proof -
  from assms have "history s \<noteq> []" "list_all HistoryEntry (history s)"
    by (auto simp: session_ok_def)
  then show "\<exists>ctx. last_context s = Inr ctx"
    by (rule last_context_entries)
  assume "truthy (simulation s)"
  with assms(1) have "\<not> isl (agents_desc repr (agents s))"
    by (simp add: session_ok_def)
  then show "\<exists>desc. agents_desc repr (agents s) = Inr desc"
    by (cases "agents_desc repr (agents s)") simp_all
qed

end
